theory Spec2Isabelle
  imports Complex_Main "HOL-Library.Word" "HOL-Library.Sublist"
begin

section \<open>JavaScript strings and numbers\<close>

text \<open>
  A JavaScript string is a sequence of UTF-16 code units and \<open>length\<close> counts code
  units, so a string is a list of 16-bit words. \<open>asc\<close> embeds an ASCII literal; the
  characters of the sources beyond ASCII are written as their code units.

  Numbers that hold lengths, limits and indices are integers (\<open>int\<close>); the products
  of an integer with one of the fractions 0.7, 0.9, 0.3 and 0.8 are taken in \<open>real\<close>.
  All the integers involved are far below \<open>2 ^ 53\<close>, where the comparison of an integer
  with such a product has the same outcome in IEEE double arithmetic as over the reals.
\<close>

type_synonym code_unit = "16 word"
type_synonym jsstring = "code_unit list"

definition asc :: "string \<Rightarrow> jsstring" where
  "asc s = map of_char s"

abbreviation NL :: code_unit where
  "NL \<equiv> 10"

text \<open>\<open>Array.prototype.join('\n')\<close>.\<close>

fun join_nl :: "jsstring list \<Rightarrow> jsstring" where
  "join_nl [] = []"
| "join_nl [l] = l"
| "join_nl (l # m # ls) = l @ NL # join_nl (m # ls)"

text \<open>
  \<open>String.prototype.indexOf\<close>: the index of the first occurrence of \<open>p\<close> in \<open>s\<close>,
  \<open>None\<close> for the result \<open>-1\<close>.
\<close>

fun indexOf :: "'a list \<Rightarrow> 'a list \<Rightarrow> nat option" where
  "indexOf [] p = (if p = [] then Some 0 else None)"
| "indexOf (x # xs) p =
     (if prefix p (x # xs) then Some 0 else map_option Suc (indexOf xs p))"

text \<open>\<open>String.prototype.includes\<close>.\<close>

definition js_includes :: "'a list \<Rightarrow> 'a list \<Rightarrow> bool" where
  "js_includes s p = (indexOf s p \<noteq> None)"

text \<open>
  \<open>a || b\<close> on values that are a string or \<open>undefined\<close>: the left operand unless it is
  falsy (\<open>undefined\<close> or the empty string).
\<close>

definition js_or :: "jsstring option \<Rightarrow> jsstring option \<Rightarrow> jsstring option" where
  "js_or a b = (case a of None \<Rightarrow> b | Some s \<Rightarrow> if s = [] then b else Some s)"

text \<open>\<open>a || ''\<close>: the final operand is a string, so is the result.\<close>

definition js_or_empty :: "jsstring option \<Rightarrow> jsstring" where
  "js_or_empty a = (case a of None \<Rightarrow> [] | Some s \<Rightarrow> s)"

text \<open>
  \<open>String.prototype.lastIndexOf\<close>: the index of the last occurrence, \<open>-1\<close> when there is
  none.
\<close>

fun lastIndexOf :: "'a list \<Rightarrow> 'a list \<Rightarrow> int" where
  "lastIndexOf [] p = (if p = [] then 0 else - 1)"
| "lastIndexOf (x # xs) p =
     (let r = lastIndexOf xs p
      in if 0 \<le> r then r + 1 else if prefix p (x # xs) then 0 else - 1)"

text \<open>
  \<open>String.prototype.substring(start, end)\<close> on integer arguments: both are clamped to
  \<open>[0, length]\<close> and swapped when \<open>start > end\<close>.
\<close>

definition substring :: "'a list \<Rightarrow> int \<Rightarrow> int \<Rightarrow> 'a list" where
  "substring s a b =
     (let n = int (length s);
          a' = min (max a 0) n;
          b' = min (max b 0) n;
          from = min a' b';
          to = max a' b'
      in take (nat (to - from)) (drop (nat from) s))"

text \<open>\<open>String.prototype.split('\n')\<close>.\<close>

fun split_nl :: "jsstring \<Rightarrow> jsstring list" where
  "split_nl [] = [[]]"
| "split_nl (c # cs) =
     (if c = NL then [] # split_nl cs
      else (case split_nl cs of [] \<Rightarrow> [[c]] | l # ls \<Rightarrow> (c # l) # ls))"

text \<open>
  \<open>Array.prototype.slice(0, end)\<close> on an integer \<open>end\<close>: a negative \<open>end\<close> counts from the
  end of the array.
\<close>

definition slice0 :: "'a list \<Rightarrow> int \<Rightarrow> 'a list" where
  "slice0 xs e =
     (let n = int (length xs);
          k = (if e < 0 then max (n + e) 0 else min e n)
      in take (nat k) xs)"

text \<open>
  The decimal digits of a natural number, and \<open>Number.prototype.toString\<close> on an integer
  (decimal notation, which JavaScript uses below \<open>10 ^ 21\<close>).
\<close>

fun digits :: "nat \<Rightarrow> jsstring" where
  "digits n =
     (if n < 10 then [of_nat (48 + n)]
      else digits (n div 10) @ [of_nat (48 + n mod 10)])"

declare digits.simps [simp del]

definition number_toString :: "int \<Rightarrow> jsstring" where
  "number_toString n = (if n < 0 then 45 # digits (nat (- n)) else digits (nat n))"

text \<open>
  \<open>GetSubstitution\<close> of ECMAScript for a string pattern, which has no capture groups:
  in the replacement text \<open>$$\<close> stands for a dollar sign, \<open>$&\<close> for the matched text,
  \<open>$`\<close> for the text before the match and \<open>$'\<close> for the text after it; every other
  character, and a dollar sign followed by anything else, stands for itself.
\<close>

fun getSubstitution :: "jsstring \<Rightarrow> jsstring \<Rightarrow> nat \<Rightarrow> jsstring \<Rightarrow> jsstring" where
  "getSubstitution matched str position [] = []"
| "getSubstitution matched str position [c] = [c]"
| "getSubstitution matched str position (c # d # rest) =
     (if c = 36 then
        (if d = 36 then 36 # getSubstitution matched str position rest
         else if d = 38 then matched @ getSubstitution matched str position rest
         else if d = 96 then take position str @ getSubstitution matched str position rest
         else if d = 39 then
           drop (position + length matched) str @ getSubstitution matched str position rest
         else c # getSubstitution matched str position (d # rest))
      else c # getSubstitution matched str position (d # rest))"

text \<open>
  \<open>String.prototype.replace\<close> with a string pattern: the first occurrence of the pattern
  is replaced by the substitution of the replacement text.
\<close>

definition replace_first :: "jsstring \<Rightarrow> jsstring \<Rightarrow> jsstring \<Rightarrow> jsstring" where
  "replace_first s pat repl =
     (case indexOf s pat of
        None \<Rightarrow> s
      | Some pos \<Rightarrow>
          take pos s @ getSubstitution pat s pos repl @ drop (pos + length pat) s)"

text \<open>
  \<open>String.prototype.replace\<close> with a global regular expression that is a literal text, and
  a replacement text without dollar signs: the occurrences are replaced from left to
  right, and the search resumes after each replaced occurrence.
\<close>

fun replace_all :: "'a list \<Rightarrow> 'a list \<Rightarrow> 'a list \<Rightarrow> 'a list" where
  "replace_all [] pat rep = []"
| "replace_all (x # xs) pat rep =
     (if pat \<noteq> [] \<and> prefix pat (x # xs)
      then rep @ replace_all (drop (length pat - 1) xs) pat rep
      else x # replace_all xs pat rep)"

section \<open>Data model (types.ts, platform-optimizer.ts)\<close>

text \<open>
  The field \<open>platform\<close> is declared as a union of four literals, but the command line
  passes whatever string the user typed, so it is a string here.
\<close>

record PromptGeneratorConfig =
  platform :: jsstring
  complexity :: jsstring
  language :: jsstring
  customRules :: "jsstring list option"

record GeneratedPrompt =
  systemPrompt :: jsstring
  instructions :: jsstring
  gp_examples :: "jsstring list"
  gp_platform :: jsstring

datatype Format = Markdown | Plain | Structured

record PlatformLimits =
  maxCharacters :: "int option"
  maxLines :: "int option"
  preferredFormat :: Format
  supportsEmojis :: bool
  requiresSpecialFormatting :: "jsstring list option"

record OptimizationResult =
  optimizedPrompt :: jsstring
  warnings :: "jsstring list"
  appliedOptimizations :: "jsstring list"

text \<open>The class \<open>PlatformOptimizer\<close>: its only field is the table of limits.\<close>

record PlatformOptimizer =
  platformLimits :: "jsstring \<rightharpoonup> PlatformLimits"

text \<open>\<open>initializePlatformLimits\<close>, run by the constructor.\<close>

definition cursorLimits :: PlatformLimits where
  "cursorLimits = \<lparr>maxCharacters = Some 15000, maxLines = None, preferredFormat = Markdown,
     supportsEmojis = True,
     requiresSpecialFormatting = Some [asc ''code-blocks'', asc ''bullet-points'']\<rparr>"

definition claudeLimits :: PlatformLimits where
  "claudeLimits = \<lparr>maxCharacters = Some 20000, maxLines = None, preferredFormat = Structured,
     supportsEmojis = True,
     requiresSpecialFormatting = Some [asc ''headers'', asc ''sections'', asc ''examples'']\<rparr>"

definition ollamaLimits :: PlatformLimits where
  "ollamaLimits = \<lparr>maxCharacters = Some 8000, maxLines = Some 300, preferredFormat = Plain,
     supportsEmojis = False,
     requiresSpecialFormatting = Some [asc ''simple-structure'']\<rparr>"

definition universalLimits :: PlatformLimits where
  "universalLimits = \<lparr>maxCharacters = Some 12000, maxLines = None, preferredFormat = Markdown,
     supportsEmojis = True,
     requiresSpecialFormatting = Some [asc ''clear-sections'']\<rparr>"

definition initializePlatformLimits :: "jsstring \<rightharpoonup> PlatformLimits" where
  "initializePlatformLimits =
     [asc ''cursor'' \<mapsto> cursorLimits, asc ''claude'' \<mapsto> claudeLimits,
      asc ''ollama'' \<mapsto> ollamaLimits, asc ''universal'' \<mapsto> universalLimits]"

definition new_PlatformOptimizer :: PlatformOptimizer where
  "new_PlatformOptimizer = \<lparr>platformLimits = initializePlatformLimits\<rparr>"

text \<open>
  \<open>getPlatformLimit\<close>: \<open>limits?.maxCharacters || 10000\<close>. The fallback is taken when the
  platform has no entry, when the entry has no \<open>maxCharacters\<close>, and when that is 0.
\<close>

definition getPlatformLimit :: "PlatformOptimizer \<Rightarrow> jsstring \<Rightarrow> int" where
  "getPlatformLimit po pf =
     (case platformLimits po pf of
        None \<Rightarrow> 10000
      | Some limits \<Rightarrow>
          (case maxCharacters limits of
             None \<Rightarrow> 10000
           | Some n \<Rightarrow> if n = 0 then 10000 else n))"

section \<open>The platform optimizer (platform-optimizer.ts)\<close>

text \<open>
  Where this source file means an emoji, it holds the characters that the bytes of the
  emoji give in a single-byte encoding (three to five characters for each). The texts
  and the patterns below have the code units of the file as it is.
\<close>

text \<open>The preamble of \<open>optimizeForCursor\<close>.\<close>

definition cursorPrefix :: jsstring where
  \<open>cursorPrefix = join_nl
     [[],
      asc ''## Cursor IDE Optimization'',
      [],
      asc ''You are specifically optimized for code generation in Cursor IDE. Focus on:'',
      asc ''- Providing complete, runnable code examples'',
      asc ''- Using TypeScript when possible'',
      asc ''- Including proper imports and exports'',
      asc ''- Suggesting file structures and organization'',
      asc ''- Optimizing for developer productivity'',
      [],
      []]\<close>

text \<open>The preamble of \<open>optimizeForClaude\<close>.\<close>

definition claudePrefix :: jsstring where
  \<open>claudePrefix = join_nl
     [[],
      asc ''## Claude Optimization'',
      [],
      asc ''You are optimized for Claude's structured reasoning capabilities. Emphasize:'',
      asc ''- Detailed step-by-step explanations'',
      asc ''- Multiple perspectives on complex problems'',
      asc ''- Comprehensive analysis with pros/cons'',
      asc ''- Clear reasoning chains'',
      asc ''- Thorough documentation of thought processes'',
      [],
      []]\<close>

text \<open>The preamble of \<open>optimizeForOllama\<close>.\<close>

definition ollamaPrefix :: jsstring where
  \<open>ollamaPrefix = join_nl
     [[],
      asc ''## Ollama Local Model Optimization'',
      [],
      asc ''You are optimized for local model efficiency. Focus on:'',
      asc ''- Concise, direct responses'',
      asc ''- Essential information only'',
      asc ''- Minimal context switching'',
      asc ''- Clear, simple language'',
      asc ''- Efficient token usage'',
      [],
      []]\<close>

text \<open>The preamble of \<open>optimizeForUniversal\<close>.\<close>

definition universalPrefix :: jsstring where
  \<open>universalPrefix = join_nl
     [[],
      asc ''## Universal Compatibility'',
      [],
      asc ''This prompt is optimized for compatibility across multiple AI platforms:'',
      asc ''- Works with Cursor, Claude, Ollama, and other AI tools'',
      asc ''- Balanced approach between detail and conciseness'',
      asc ''- Standard markdown formatting'',
      asc ''- Clear structure for easy parsing'',
      [],
      []]\<close>

text \<open>The block that \<open>addDetailedExamples\<close> appends.\<close>

definition exampleSection :: jsstring where
  \<open>exampleSection = join_nl
     [[],
      [],
      asc ''## Detailed Examples for Claude'',
      [],
      asc ''### Example 1: Code Review Request'',
      asc ''**Request:** "Review this React component"'',
      asc ''**Response Structure:**'',
      [0x011F, 0x0178, 0x00AF] @ asc '' **OBJECTIVE:** Analyze component for Hickey/Linus/Zeus principles'',
      [0x011F, 0x0178, 0x201D, 0x00A7] @ asc '' **IMPLEMENTATION:** Specific improvements with code examples'',
      [0x00E2, 0x0161, 0x00A0, 0x00EF, 0x00B8] @ asc '' **CONSIDERATIONS:** Potential issues and trade-offs'',
      [0x011F, 0x0178, 0x201C, 0x02C6] @ asc '' **VALIDATION:** Testing strategies and success metrics'',
      [],
      asc ''### Example 2: Architecture Decision'',
      asc ''**Request:** "Should I use Redux or Context API?"'',
      asc ''**Response Structure:**'',
      [0x011F, 0x0178, 0x00AF] @ asc '' **OBJECTIVE:** Choose state management based on real needs (Linus)'',
      [0x011F, 0x0178, 0x201D, 0x00A7] @ asc '' **IMPLEMENTATION:** Simple solution first (Hickey), structured comparison (Zeus)'',
      [0x00E2, 0x0161, 0x00A0, 0x00EF, 0x00B8] @ asc '' **CONSIDERATIONS:** Complexity trade-offs and team familiarity'',
      [0x011F, 0x0178, 0x201C, 0x02C6] @ asc '' **VALIDATION:** Measurable criteria for success'',
      []]\<close>

datatype js_error = TypeError

text \<open>
  The regular expression \<open>/^(# .*?\n\n.*?\n\n)/s\<close> of \<open>insertAfterHeader\<close>. With the
  flag \<open>s\<close> the dot matches every code unit, so the lazy groups stop at the first blank
  line after the two leading characters and at the first blank line after that one.
  The result is the matched text, \<open>None\<close> for \<open>null\<close>.
\<close>

definition headerMatch :: "jsstring \<Rightarrow> jsstring option" where
  "headerMatch prompt =
     (if prefix (asc ''# '') prompt then
        (case indexOf (drop 2 prompt) (asc ''\<newline>\<newline>'') of
           None \<Rightarrow> None
         | Some i \<Rightarrow>
             (case indexOf (drop (2 + i + 2) prompt) (asc ''\<newline>\<newline>'') of
                None \<Rightarrow> None
              | Some j \<Rightarrow> Some (take (2 + i + 2 + j + 2) prompt)))
      else None)"

definition insertAfterHeader :: "jsstring \<Rightarrow> jsstring \<Rightarrow> jsstring" where
  "insertAfterHeader prompt content =
     (case headerMatch prompt of
        Some h \<Rightarrow> replace_first prompt h (h @ content)
      | None \<Rightarrow> content @ prompt)"

definition enhanceCodeSections :: "jsstring \<Rightarrow> jsstring" where
  \<open>enhanceCodeSections prompt =
     replace_all prompt (asc ''## Implementation Guidelines'')
       (join_nl
         [asc ''## Code Implementation Guidelines'',
          [],
          asc ''**For Cursor IDE users:**'',
          asc ''- Always provide complete, runnable code'',
          asc ''- Include proper TypeScript types'',
          asc ''- Suggest file organization'',
          asc ''- Consider IDE integration'',
          [],
          asc ''## Implementation Guidelines''])\<close>

definition enhanceStructuredSections :: "jsstring \<Rightarrow> jsstring" where
  \<open>enhanceStructuredSections prompt =
     (let enhanced = replace_all prompt ([0x011F, 0x0178, 0x00AF] @ asc '' OBJECTIVE:'')
            (join_nl
              [[0x011F, 0x0178, 0x00AF] @ asc '' OBJECTIVE:'',
               asc ''*Claude users: Provide comprehensive analysis with multiple perspectives*'',
               []])
      in if enhanced = prompt
         then replace_all prompt (asc ''### '' @ [0x011F, 0x0178, 0x00AF] @ asc '' OBJECTIVE'')
                (join_nl
                  [asc ''### '' @ [0x011F, 0x0178, 0x00AF] @ asc '' OBJECTIVE'',
                   asc ''*Claude users: Provide comprehensive analysis with multiple perspectives*''])
         else enhanced)\<close>

definition addDetailedExamples :: "jsstring \<Rightarrow> jsstring" where
  "addDetailedExamples prompt = prompt @ exampleSection"

text \<open>
  The last replacement of \<open>removeEmojis\<close> has the flag \<open>u\<close>: it reads the text by code
  points, a high surrogate followed by a low surrogate being one code point, and deletes
  the code points of the six ranges.
\<close>

definition codePoint :: "code_unit \<Rightarrow> code_unit \<Rightarrow> nat" where
  "codePoint hi lo = 0x10000 + (unat hi - 0xD800) * 0x400 + (unat lo - 0xDC00)"

definition symbolCodePoint :: "nat \<Rightarrow> bool" where
  "symbolCodePoint cp \<longleftrightarrow>
     0x1F600 \<le> cp \<and> cp \<le> 0x1F64F \<or> 0x1F300 \<le> cp \<and> cp \<le> 0x1F5FF \<or>
     0x1F680 \<le> cp \<and> cp \<le> 0x1F6FF \<or> 0x1F1E0 \<le> cp \<and> cp \<le> 0x1F1FF \<or>
     0x2600 \<le> cp \<and> cp \<le> 0x26FF \<or> 0x2700 \<le> cp \<and> cp \<le> 0x27BF"

fun stripSymbols :: "jsstring \<Rightarrow> jsstring" where
  "stripSymbols [] = []"
| "stripSymbols [c] = (if symbolCodePoint (unat c) then [] else [c])"
| "stripSymbols (c # d # rest) =
     (if 0xD800 \<le> c \<and> c \<le> 0xDBFF \<and> 0xDC00 \<le> d \<and> d \<le> 0xDFFF then
        (if symbolCodePoint (codePoint c d) then stripSymbols rest
         else c # d # stripSymbols rest)
      else if symbolCodePoint (unat c) then stripSymbols (d # rest)
      else c # stripSymbols (d # rest))"

definition removeEmojis :: "jsstring \<Rightarrow> jsstring" where
  "removeEmojis prompt =
     stripSymbols
       (replace_all
         (replace_all
           (replace_all
             (replace_all prompt [0x011F, 0x0178, 0x00AF] (asc ''[OBJECTIVE]''))
             [0x011F, 0x0178, 0x201D, 0x00A7] (asc ''[IMPLEMENTATION]''))
           [0x00E2, 0x0161, 0x00A0, 0x00EF, 0x00B8] (asc ''[CONSIDERATIONS]''))
         [0x011F, 0x0178, 0x201C, 0x02C6] (asc ''[VALIDATION]''))"

text \<open>
  The regular expression \<open>/\*\*([^*]+)\*\*/\<close> at the head of a text: two asterisks, the
  longest run of other code units, which must not be empty, and two asterisks. The
  result is the captured run and the text after the match.
\<close>

definition boldMatch :: "jsstring \<Rightarrow> (jsstring \<times> jsstring) option" where
  "boldMatch s =
     (if prefix (asc ''**'') s then
        (let body = drop 2 s;
             phrase = takeWhile (\<lambda>c. c \<noteq> 42) body;
             rest = dropWhile (\<lambda>c. c \<noteq> 42) body
         in if phrase \<noteq> [] \<and> prefix (asc ''**'') rest then Some (phrase, drop 2 rest)
            else None)
      else None)"

text \<open>The global replacement of that expression by \<open>$1:\<close>.\<close>

function replaceBold :: "jsstring \<Rightarrow> jsstring" where
  "replaceBold [] = []"
| "replaceBold (x # xs) =
     (case boldMatch (x # xs) of
        Some (phrase, rest) \<Rightarrow> phrase @ asc '':'' @ replaceBold rest
      | None \<Rightarrow> x # replaceBold xs)"
  by pat_completeness auto

termination
proof (relation "measure length")
  fix x :: code_unit and xs x2 phrase rest
  assume m: "boldMatch (x # xs) = Some x2" and x2: "(phrase, rest) = x2"
  have "length (dropWhile (\<lambda>c. c \<noteq> 42) (drop 2 (x # xs))) \<le> length (x # xs)"
    by (rule order_trans [OF length_dropWhile_le]) simp
  with m x2 show "(rest, x # xs) \<in> measure length"
    by (auto simp: boldMatch_def Let_def split: if_splits)
qed simp_all

definition simplifyStructure :: "jsstring \<Rightarrow> jsstring" where
  "simplifyStructure prompt =
     replace_all
       (replaceBold
         (replace_all
           (replace_all prompt (asc ''### '') (asc ''## ''))
           (asc ''#### '') (asc ''### '')))
       (asc ''- [ ]'') (asc ''-'')"

definition truncationMessage :: jsstring where
  "truncationMessage = asc ''\<newline>\<newline>[Truncated for platform compatibility]''"

text \<open>
  \<open>prompt.match(/\n\n## Usage Instructions[\s\S]*$/)\<close>: the text from the first
  occurrence of the heading to the end.
\<close>

definition footerMatch :: "jsstring \<Rightarrow> jsstring option" where
  "footerMatch prompt =
     (case indexOf prompt (asc ''\<newline>\<newline>## Usage Instructions'') of
        None \<Rightarrow> None
      | Some i \<Rightarrow> Some (drop i prompt))"

text \<open>
  \<open>prompt.match(/^(# .*?\n\n.*?\n\n## Core Principles[\s\S]*?\n\n)/)\<close>. Without the
  flag \<open>s\<close> the dot matches no line terminator, so each of the first two lazy groups is the
  run of code units up to the next line terminator, and the text that follows the group
  in the expression has to start there. The last group ends at the first blank line after
  the heading.
\<close>

definition lineTerminator :: "code_unit \<Rightarrow> bool" where
  "lineTerminator c \<longleftrightarrow> c = 0x0A \<or> c = 0x0D \<or> c = 0x2028 \<or> c = 0x2029"

definition coreHeaderMatch :: "jsstring \<Rightarrow> jsstring option" where
  "coreHeaderMatch prompt =
     (if prefix (asc ''# '') prompt then
        (let r1 = drop 2 prompt;
             title = takeWhile (\<lambda>c. \<not> lineTerminator c) r1;
             r2 = dropWhile (\<lambda>c. \<not> lineTerminator c) r1
         in if prefix (asc ''\<newline>\<newline>'') r2 then
              (let r3 = drop 2 r2;
                   para = takeWhile (\<lambda>c. \<not> lineTerminator c) r3;
                   r4 = dropWhile (\<lambda>c. \<not> lineTerminator c) r3;
                   heading = asc ''\<newline>\<newline>## Core Principles''
               in if prefix heading r4 then
                    (case indexOf (drop (length heading) r4) (asc ''\<newline>\<newline>'') of
                       None \<Rightarrow> None
                     | Some k \<Rightarrow>
                         Some (take (2 + length title + 2 + length para
                                       + length heading + k + 2) prompt))
                  else None)
            else None)
      else None)"

definition truncatePrompt :: "jsstring \<Rightarrow> int \<Rightarrow> jsstring" where
  "truncatePrompt prompt maxChars =
     (if int (length prompt) \<le> maxChars then prompt
      else
        (let footerM = footerMatch prompt;
             footerLength = (case footerM of Some f \<Rightarrow> int (length f) | None \<Rightarrow> 0);
             availableChars = maxChars - int (length truncationMessage) - footerLength
         in if real_of_int availableChars < real (length prompt) * 0.3 then
              (let simpleAvailable = maxChars - int (length truncationMessage);
                   truncated = substring prompt 0 simpleAvailable;
                   lastParagraph = lastIndexOf truncated (asc ''\<newline>\<newline>'')
               in if real_of_int lastParagraph > real_of_int simpleAvailable * 0.8
                  then substring truncated 0 lastParagraph @ truncationMessage
                  else truncated @ truncationMessage)
            else
              (let headerM = coreHeaderMatch prompt;
                   headerLength = (case headerM of Some h \<Rightarrow> int (length h) | None \<Rightarrow> 0);
                   mainContentStart = headerLength;
                   mainContentEnd = int (length prompt) - footerLength;
                   mainContentAvailable = availableChars - headerLength
               in if mainContentAvailable > 0 then
                    (let header = substring prompt 0 headerLength;
                         mainContent = substring prompt mainContentStart
                                         (mainContentStart + mainContentAvailable);
                         footer = (case footerM of Some f \<Rightarrow> f | None \<Rightarrow> []);
                         lastParagraph = lastIndexOf mainContent (asc ''\<newline>\<newline>'');
                         finalMainContent =
                           (if real_of_int lastParagraph > real_of_int mainContentAvailable * 0.8
                            then substring mainContent 0 lastParagraph
                            else mainContent)
                     in header @ finalMainContent @ truncationMessage @ footer)
                  else
                    (let truncated =
                           substring prompt 0 (maxChars - int (length truncationMessage))
                     in truncated @ truncationMessage))))"

definition truncateByLines :: "jsstring \<Rightarrow> int \<Rightarrow> jsstring" where
  "truncateByLines prompt maxLinesArg =
     (let lines = split_nl prompt
      in if int (length lines) \<le> maxLinesArg then prompt
         else
           (let truncationLines = [[], asc ''[Truncated for platform compatibility]''];
                availableLines = maxLinesArg - int (length truncationLines)
            in join_nl (slice0 lines availableLines) @ asc ''\<newline>''
                 @ join_nl truncationLines))"

text \<open>
  The check \<open>optimizedPrompt.length > limits.maxCharacters!\<close>: the comparison with
  \<open>undefined\<close> is false.
\<close>

definition exceeds :: "jsstring \<Rightarrow> int option \<Rightarrow> bool" where
  "exceeds p limit = (case limit of None \<Rightarrow> False | Some m \<Rightarrow> int (length p) > m)"

text \<open>
  The character check shared by the Cursor, Ollama and universal paths: truncate and warn
  when the prompt is longer than the limit. The \<open>label\<close> is the platform named in the
  warning.
\<close>

definition checkCharacterLimit ::
  "jsstring \<Rightarrow> int option \<Rightarrow> string \<Rightarrow> jsstring \<times> jsstring list" where
  "checkCharacterLimit p limit label =
     (case limit of
        None \<Rightarrow> (p, [])
      | Some m \<Rightarrow>
          if int (length p) > m
          then (truncatePrompt p m,
                [asc ''Prompt truncated to '' @ number_toString m @ asc '' characters for ''
                   @ asc label @ asc '' compatibility''])
          else (p, []))"

text \<open>
  \<open>optimizeForCursor\<close>. \<open>this.platformLimits.get('cursor')!\<close> is \<open>undefined\<close> when the
  table has no such entry, and reading a property of it throws a \<open>TypeError\<close>.
\<close>

definition optimizeForCursor ::
  "PlatformOptimizer \<Rightarrow> jsstring \<Rightarrow> PromptGeneratorConfig \<Rightarrow> js_error + OptimizationResult" where
  "optimizeForCursor po prompt config =
     (case platformLimits po (asc ''cursor'') of
        None \<Rightarrow> Inl TypeError
      | Some limits \<Rightarrow>
          (let p1 = insertAfterHeader prompt cursorPrefix;
               p2 = enhanceCodeSections p1;
               (p3, warns) = checkCharacterLimit p2 (maxCharacters limits) ''Cursor''
           in Inr \<lparr>optimizedPrompt = p3, warnings = warns,
                   appliedOptimizations =
                     [asc ''Added Cursor-specific code generation focus'',
                      asc ''Enhanced code-related sections'']\<rparr>))"

text \<open>\<open>optimizeForClaude\<close>: over the limit it only warns, the prompt is not truncated.\<close>

definition optimizeForClaude ::
  "PlatformOptimizer \<Rightarrow> jsstring \<Rightarrow> PromptGeneratorConfig \<Rightarrow> js_error + OptimizationResult" where
  "optimizeForClaude po prompt config =
     (case platformLimits po (asc ''claude'') of
        None \<Rightarrow> Inl TypeError
      | Some limits \<Rightarrow>
          (let p1 = insertAfterHeader prompt claudePrefix;
               p2 = enhanceStructuredSections p1;
               p3 = addDetailedExamples p2;
               warns =
                 (case maxCharacters limits of
                    None \<Rightarrow> []
                  | Some m \<Rightarrow>
                      if int (length p3) > m
                      then [asc ''Prompt is '' @ number_toString (int (length p3))
                              @ asc '' characters (within Claude's ''
                              @ number_toString m @ asc '' limit)'']
                      else [])
           in Inr \<lparr>optimizedPrompt = p3, warnings = warns,
                   appliedOptimizations =
                     [asc ''Added Claude-specific structured thinking'',
                      asc ''Enhanced structured sections'',
                      asc ''Added detailed examples'']\<rparr>))"

text \<open>
  \<open>optimizeForOllama\<close>: the character check, then the line check
  \<open>limits.maxLines && lineCount > limits.maxLines\<close>, which is false when \<open>maxLines\<close> is
  \<open>undefined\<close> or 0.
\<close>

definition optimizeForOllama ::
  "PlatformOptimizer \<Rightarrow> jsstring \<Rightarrow> PromptGeneratorConfig \<Rightarrow> js_error + OptimizationResult" where
  "optimizeForOllama po prompt config =
     (case platformLimits po (asc ''ollama'') of
        None \<Rightarrow> Inl TypeError
      | Some limits \<Rightarrow>
          (let p1 = insertAfterHeader prompt ollamaPrefix;
               (p2, applied2) =
                 (if \<not> supportsEmojis limits
                  then (removeEmojis p1,
                        [asc ''Added Ollama-specific local model optimization'',
                         asc ''Removed emojis for local model compatibility''])
                  else (p1, [asc ''Added Ollama-specific local model optimization'']));
               p3 = simplifyStructure p2;
               applied3 = applied2 @ [asc ''Simplified structure for local models''];
               (p4, warns4) = checkCharacterLimit p3 (maxCharacters limits) ''Ollama'';
               lineCount = int (length (split_nl p4));
               (p5, warns5) =
                 (case maxLines limits of
                    None \<Rightarrow> (p4, warns4)
                  | Some ml \<Rightarrow>
                      if ml \<noteq> 0 \<and> lineCount > ml
                      then (truncateByLines p4 ml,
                            warns4 @ [asc ''Prompt truncated to '' @ number_toString ml
                                        @ asc '' lines for Ollama compatibility''])
                      else (p4, warns4))
           in Inr \<lparr>optimizedPrompt = p5, warnings = warns5,
                   appliedOptimizations = applied3\<rparr>))"

definition optimizeForUniversal ::
  "PlatformOptimizer \<Rightarrow> jsstring \<Rightarrow> PromptGeneratorConfig \<Rightarrow> js_error + OptimizationResult" where
  "optimizeForUniversal po prompt config =
     (case platformLimits po (asc ''universal'') of
        None \<Rightarrow> Inl TypeError
      | Some limits \<Rightarrow>
          (let p1 = insertAfterHeader prompt universalPrefix;
               (p2, warns) = checkCharacterLimit p1 (maxCharacters limits) ''universal''
           in Inr \<lparr>optimizedPrompt = p2, warnings = warns,
                   appliedOptimizations =
                     [asc ''Added universal compatibility optimization'']\<rparr>))"

text \<open>\<open>optimize\<close>: the \<open>switch\<close> on the configured platform.\<close>

definition optimize ::
  "PlatformOptimizer \<Rightarrow> jsstring \<Rightarrow> PromptGeneratorConfig \<Rightarrow> js_error + OptimizationResult" where
  "optimize po prompt config =
     (if platform config = asc ''cursor'' then optimizeForCursor po prompt config
      else if platform config = asc ''claude'' then optimizeForClaude po prompt config
      else if platform config = asc ''ollama'' then optimizeForOllama po prompt config
      else optimizeForUniversal po prompt config)"

section \<open>The generator (generator.ts)\<close>

text \<open>
  The class \<open>AdaptivePromptGenerator\<close>: the core prompt, the two fragment maps and the
  platform optimizer it holds.
\<close>

record AdaptivePromptGenerator =
  corePrompt :: jsstring
  extendedPrompts :: "jsstring \<rightharpoonup> jsstring"
  examples :: "jsstring \<rightharpoonup> jsstring"
  platformOptimizer :: PlatformOptimizer

text \<open>The core fragment, always included (generator.ts, getCorePrompt).\<close>

definition getCorePrompt :: jsstring where
  \<open>getCorePrompt = join_nl
     [asc ''# ZeroCode Framework - Core Rules'',
      [],
      asc ''## TRIGGER PATTERNS - When you see these, apply rules:'',
      [],
      asc ''### Code Architecture Decisions'',
      asc ''TRIGGERS: "how should I structure", "best practice", "design pattern"'',
      [0x2192] @ asc '' APPLY: Hickey Simple Rule - One concept per component'',
      [],
      asc ''### Problem Solving  '',
      asc ''TRIGGERS: "how to implement", "need to build", "want to create"'',
      [0x2192] @ asc '' APPLY: Linus Real Problem Rule - Is this actually needed?'',
      [],
      asc ''### Code Review'',
      asc ''TRIGGERS: "is this good", "review my code", "feedback on"'',
      [0x2192] @ asc '' APPLY: Zeus Structure - Analyze systematically'',
      [],
      asc ''## CONCRETE RULES WITH EXAMPLES'',
      [],
      asc ''### HICKEY RULE: Detect Complexity'',
      asc ''BAD PATTERN (avoid this):'',
      asc ''```javascript'',
      asc ''class UserServiceManagerFactory {  // Multiple concepts'',
      asc ''  validateAndSaveAndEmail() {}     // Mixed responsibilities'',
      asc ''}'',
      asc ''```'',
      [],
      asc ''GOOD PATTERN (do this):'',
      asc ''```javascript'',
      asc ''validateUser(user)    // One concept'',
      asc ''saveUser(user)        // One concept'',
      asc ''emailUser(user)       // One concept'',
      asc ''```'',
      [],
      asc ''### LINUS RULE: Real vs Imaginary'',
      asc ''IMAGINARY PROBLEMS (don't solve):'',
      asc ''- "What if we have 1 million users" (you have 10)'',
      asc ''- "This needs to be infinitely scalable" (it doesn't)'',
      asc ''- "We might need this flexibility" (you won't)'',
      [],
      asc ''REAL PROBLEMS (solve these):'',
      asc ''- "This takes 5 seconds to load" (measurable)'',
      asc ''- "Users can't reset passwords" (actual issue)'',
      asc ''- "Database queries fail randomly" (happening now)'',
      [],
      asc ''### ZEUS STRUCTURE: Every response must have:'',
      [0xD83C, 0xDFAF] @ asc '' OBJECTIVE: What we're solving (one sentence)'',
      [0xD83D, 0xDD27] @ asc '' IMPLEMENTATION: Simple, working code'',
      [0x26A0, 0xFE0F] @ asc '' TRADEOFFS: What we're sacrificing for simplicity'',
      [0xD83D, 0xDCC8] @ asc '' VALIDATION: How to verify it works'',
      [],
      asc ''CRITICAL: Prefer boring solutions that work over clever solutions that might work.'']\<close>

text \<open>Extended rules stored under the key cursor (loadExtendedPrompts).\<close>

definition cursorExtended :: jsstring where
  \<open>cursorExtended = join_nl
     [[],
      asc ''## Cursor-Specific Code Generation Rules'',
      [],
      asc ''When generating code in Cursor:'',
      asc ''1. Always provide complete, runnable files'',
      asc ''2. Include all imports at the top'',
      asc ''3. Use TypeScript when possible for better IntelliSense'',
      asc ''4. Add clear comments for complex logic'',
      [],
      asc ''Example of Cursor-optimized response:'',
      asc ''```typescript'',
      asc ''// Complete file: userService.ts'',
      asc ''import { db } from './database';'',
      asc ''import { User } from './types';'',
      [],
      asc ''// Simple function - one responsibility'',
      asc ''export async function getUser(id: string): Promise<User | null> {'',
      asc ''  const result = await db.query('SELECT * FROM users WHERE id = $1', [id]);'',
      asc ''  return result.rows[0] || null;'',
      asc ''}'',
      asc ''```'',
      []]\<close>

text \<open>Extended rules stored under the key claude (loadExtendedPrompts).\<close>

definition claudeExtended :: jsstring where
  \<open>claudeExtended = join_nl
     [[],
      asc ''## Claude-Specific Interaction Rules'',
      [],
      asc ''When working with Claude:'',
      asc ''1. Break complex tasks into clear steps'',
      asc ''2. Ask for clarification before making assumptions'',
      asc ''3. Provide reasoning before code'',
      asc ''4. Use markdown for better readability'',
      [],
      asc ''Claude Response Pattern:'',
      asc ''1. Understand the problem'',
      asc ''2. Propose simple solution'',
      asc ''3. Implement with clear code'',
      asc ''4. Explain tradeoffs'',
      []]\<close>

text \<open>Extended rules stored under the key copilot (loadExtendedPrompts).\<close>

definition copilotExtended :: jsstring where
  \<open>copilotExtended = join_nl
     [[],
      asc ''## GitHub Copilot Optimization Rules'',
      [],
      asc ''For better Copilot suggestions:'',
      asc ''1. Write descriptive function names'',
      asc ''2. Add clear comments before functions'',
      asc ''3. Use consistent naming patterns'',
      asc ''4. Start with test cases when possible'',
      [],
      asc ''Example:'',
      asc ''```javascript'',
      asc ''// Get user by email address from database'',
      asc ''// Returns null if user not found'',
      asc ''function getUserByEmail(email) {'',
      asc ''  // Copilot will complete this better with clear intent'',
      asc ''}'',
      asc ''```'',
      []]\<close>

text \<open>Examples stored under the key react (loadExamples).\<close>

definition reactExamples :: jsstring where
  \<open>reactExamples = join_nl
     [[],
      asc ''## React-Specific Examples'',
      [],
      asc ''HICKEY PRINCIPLE in React:'',
      asc ''BAD: Component doing everything'',
      asc ''```jsx'',
      asc ''function UserDashboard() {'',
      asc ''  // Fetching, validation, display, state - all mixed'',
      asc ''  const [user, setUser] = useState();'',
      asc ''  useEffect(() => { /* fetch */ }, []);'',
      asc ''  if (!user.email.includes('@')) { /* validation */ }'',
      asc ''  return <div>...</div>;'',
      asc ''}'',
      asc ''```'',
      [],
      asc ''GOOD: Separated concerns'',
      asc ''```jsx'',
      asc ''// Custom hook for data'',
      asc ''function useUser(id) { /* fetching logic */ }'',
      [],
      asc ''// Pure component for display'',
      asc ''function UserDisplay({ user }) { /* only display */ }'',
      [],
      asc ''// Composition'',
      asc ''function UserDashboard() {'',
      asc ''  const user = useUser(id);'',
      asc ''  return <UserDisplay user={user} />;'',
      asc ''}'',
      asc ''```'',
      []]\<close>

text \<open>Examples stored under the key node (loadExamples).\<close>

definition nodeExamples :: jsstring where
  \<open>nodeExamples = join_nl
     [[],
      asc ''## Node.js-Specific Examples'',
      [],
      asc ''LINUS PRINCIPLE in Node.js:'',
      asc ''BAD: Overengineered API'',
      asc ''```javascript'',
      asc ''class AbstractRepositoryFactory {'',
      asc ''  createRepository(type) {'',
      asc ''    return new RepositoryBuilder()'',
      asc ''      .withType(type)'',
      asc ''      .withCache()'',
      asc ''      .withValidation()'',
      asc ''      .build();'',
      asc ''  }'',
      asc ''}'',
      asc ''```'',
      [],
      asc ''GOOD: Simple and direct'',
      asc ''```javascript'',
      asc ''const users = require('./users.json');'',
      [],
      asc ''function getUser(id) {'',
      asc ''  return users.find(u => u.id === id);'',
      asc ''}'',
      asc ''```'',
      []]\<close>

text \<open>The constructor: \<open>loadPrompts\<close>, then a fresh platform optimizer.\<close>

definition loadExtendedPrompts :: "jsstring \<rightharpoonup> jsstring" where
  "loadExtendedPrompts =
     [asc ''cursor'' \<mapsto> cursorExtended, asc ''claude'' \<mapsto> claudeExtended,
      asc ''copilot'' \<mapsto> copilotExtended]"

definition loadExamples :: "jsstring \<rightharpoonup> jsstring" where
  "loadExamples = [asc ''react'' \<mapsto> reactExamples, asc ''node'' \<mapsto> nodeExamples]"

definition new_AdaptivePromptGenerator :: AdaptivePromptGenerator where
  "new_AdaptivePromptGenerator =
     \<lparr>corePrompt = getCorePrompt, extendedPrompts = loadExtendedPrompts,
      examples = loadExamples, platformOptimizer = new_PlatformOptimizer\<rparr>"

text \<open>\<open>estimateTokens\<close>: \<open>Math.ceil(text.length / 4)\<close>.\<close>

definition estimateTokens :: "jsstring \<Rightarrow> int" where
  "estimateTokens text = \<lceil>real (length text) / 4\<rceil>"

text \<open>
  \<open>detectProjectType\<close> reads \<open>package.json\<close> in the working directory. The file is the
  argument: \<open>None\<close> when reading it throws, which the \<open>catch\<close> swallows.
\<close>

definition detectProjectType :: "jsstring option \<Rightarrow> jsstring" where
  "detectProjectType file =
     (case file of
        None \<Rightarrow> asc ''node''
      | Some packageJson \<Rightarrow>
          if js_includes packageJson (asc ''react'') then asc ''react''
          else if js_includes packageJson (asc ''vue'') then asc ''vue''
          else if js_includes packageJson (asc ''angular'') then asc ''angular''
          else if js_includes packageJson (asc ''express'') then asc ''node''
          else if js_includes packageJson (asc ''fastify'') then asc ''node''
          else asc ''node'')"

text \<open>
  The two lookups of \<open>assembleAdaptivePrompt\<close>:
  \<open>this.extendedPrompts.get(config.platform) || this.extendedPrompts.get('cursor') || ''\<close>
  and \<open>this.examples.get(projectType) || ''\<close>.
\<close>

definition extendedPrompt_for :: "AdaptivePromptGenerator \<Rightarrow> jsstring \<Rightarrow> jsstring" where
  "extendedPrompt_for g pf =
     js_or_empty (js_or (extendedPrompts g pf) (extendedPrompts g (asc ''cursor'')))"

definition examples_for :: "AdaptivePromptGenerator \<Rightarrow> jsstring \<Rightarrow> jsstring" where
  "examples_for g projectType = js_or_empty (examples g projectType)"

text \<open>
  \<open>assembleAdaptivePrompt\<close>. The three variables the source updates in place are threaded
  through as a triple (prompt, applied optimizations, estimated tokens).
\<close>

definition assembleAdaptivePrompt ::
  "AdaptivePromptGenerator \<Rightarrow> jsstring option \<Rightarrow> PromptGeneratorConfig \<Rightarrow> OptimizationResult" where
  "assembleAdaptivePrompt g file config =
     (let platformLimit = getPlatformLimit (platformOptimizer g) (platform config);
          s0 = (corePrompt g, [asc ''core''], estimateTokens (corePrompt g));
          extendedPrompt = extendedPrompt_for g (platform config);
          s1 = (case s0 of (finalPrompt, applied, estimatedTokens) \<Rightarrow>
                  if extendedPrompt \<noteq> [] \<and>
                     real_of_int (estimatedTokens + estimateTokens extendedPrompt)
                       < real_of_int platformLimit * 0.7
                  then (finalPrompt @ asc ''\<newline>\<newline>'' @ extendedPrompt,
                        applied @ [asc ''extended''],
                        estimatedTokens + estimateTokens extendedPrompt)
                  else s0);
          projectType = detectProjectType file;
          exampleText = examples_for g projectType;
          s2 = (case s1 of (finalPrompt, applied, estimatedTokens) \<Rightarrow>
                  if exampleText \<noteq> [] \<and>
                     real_of_int (estimatedTokens + estimateTokens exampleText)
                       < real_of_int platformLimit * 0.9
                  then (finalPrompt @ asc ''\<newline>\<newline>'' @ exampleText,
                        applied @ [asc ''examples''],
                        estimatedTokens + estimateTokens exampleText)
                  else s1)
      in case s2 of (finalPrompt, applied, estimatedTokens) \<Rightarrow>
           \<lparr>optimizedPrompt = finalPrompt, warnings = [], appliedOptimizations = applied\<rparr>)"

definition getExamplesList :: "jsstring list" where
  "getExamplesList =
     [asc ''Use simple functions over complex classes'',
      asc ''Solve real problems, not imaginary ones'',
      asc ''Provide working code with clear validation'']"

text \<open>\<open>generate\<close>, the public operation; \<open>generatePrompt\<close> builds a generator and calls it.\<close>

definition generate ::
  "AdaptivePromptGenerator \<Rightarrow> jsstring option \<Rightarrow> PromptGeneratorConfig \<Rightarrow> GeneratedPrompt" where
  "generate g file config =
     (let optimization = assembleAdaptivePrompt g file config
      in \<lparr>systemPrompt = optimizedPrompt optimization,
          instructions = asc ''Apply ZeroCode principles to all code generation'',
          gp_examples = getExamplesList,
          gp_platform = platform config\<rparr>)"

definition generatePrompt :: "jsstring option \<Rightarrow> PromptGeneratorConfig \<Rightarrow> GeneratedPrompt" where
  "generatePrompt file config = generate new_AdaptivePromptGenerator file config"

section \<open>Sample inputs\<close>

text \<open>
  A generator with synthetic fragments and a destination \<open>tiny\<close> of ceiling 100: the core
  fragment has 80 characters (estimate 20), the extended fragment 40 (estimate 10) and
  the examples fragment 200 (estimate 50).
\<close>

definition tinyLimits :: PlatformLimits where
  "tinyLimits = \<lparr>maxCharacters = Some 100, maxLines = None, preferredFormat = Plain,
     supportsEmojis = True, requiresSpecialFormatting = None\<rparr>"

definition scenarioA :: AdaptivePromptGenerator where
  "scenarioA = \<lparr>corePrompt = replicate 80 97,
     extendedPrompts = [asc ''tiny'' \<mapsto> replicate 40 98],
     examples = [asc ''node'' \<mapsto> replicate 200 99],
     platformOptimizer = \<lparr>platformLimits = [asc ''tiny'' \<mapsto> tinyLimits]\<rparr>\<rparr>"

definition configFor :: "jsstring \<Rightarrow> PromptGeneratorConfig" where
  "configFor pf = \<lparr>platform = pf, complexity = asc ''basic'', language = asc ''english'',
     customRules = Some []\<rparr>"

section \<open>Notions of the claims about the optimizer\<close>

text \<open>
  The document that \<open>optimize\<close> has built when it reaches its limit checks, by platform,
  for the table of the constructor (whose Ollama entry does not support emojis).
\<close>

definition preTruncation :: "jsstring \<Rightarrow> jsstring \<Rightarrow> jsstring" where
  "preTruncation pf prompt =
     (if pf = asc ''cursor'' then enhanceCodeSections (insertAfterHeader prompt cursorPrefix)
      else if pf = asc ''claude'' then
        addDetailedExamples (enhanceStructuredSections (insertAfterHeader prompt claudePrefix))
      else if pf = asc ''ollama'' then
        simplifyStructure (removeEmojis (insertAfterHeader prompt ollamaPrefix))
      else insertAfterHeader prompt universalPrefix)"

text \<open>A warning mentions truncation when it includes the word \<open>truncated\<close>.\<close>

definition mentionsTruncated :: "jsstring \<Rightarrow> bool" where
  "mentionsTruncated w = js_includes w (asc ''truncated'')"

text \<open>
  The line limit of the Ollama path applies: after the character check the document has
  more than 300 lines.
\<close>

definition ollamaLineLimitApplies :: "jsstring \<Rightarrow> bool" where
  "ollamaLineLimitApplies prompt \<longleftrightarrow>
     int (length (split_nl (fst (checkCharacterLimit (preTruncation (asc ''ollama'') prompt)
                                   (Some 8000) ''Ollama'')))) > 300"

text \<open>A prompt of 327 empty lines, and one of 20000 letters.\<close>

definition blankLines :: jsstring where
  "blankLines = replicate 327 NL"

definition longPrompt :: jsstring where
  "longPrompt = replicate 20000 97"

section \<open>Notions of the claim about structural simplification\<close>

text \<open>The two heading replacements, one after the other.\<close>

definition demote :: "jsstring \<Rightarrow> jsstring" where
  "demote s = replace_all (replace_all s (asc ''### '') (asc ''## '')) (asc ''#### '') (asc ''### '')"

text \<open>
  Two lines are related when the part of the first before its first asterisk starts the
  second.
\<close>

definition keepsStart :: "jsstring \<Rightarrow> jsstring \<Rightarrow> bool" where
  "keepsStart l l' \<longleftrightarrow> prefix (takeWhile (\<lambda>c. c \<noteq> 42) l) l'"



section \<open>The assembler\<close>

lemma estimateTokens_div: "estimateTokens t = (int (length t) + 3) div 4"
  unfolding estimateTokens_def by linarith

lemma labels_distinct:
  "asc ''core'' \<noteq> asc ''extended''" "asc ''core'' \<noteq> asc ''examples''"
  "asc ''extended'' \<noteq> asc ''examples''" "asc ''examples'' \<noteq> asc ''extended''"
  "asc ''extended'' \<noteq> asc ''core''" "asc ''examples'' \<noteq> asc ''core''"
  by (simp_all add: asc_def)

text \<open>The assembler without its local variables.\<close>

lemma assemble_explicit:
  "assembleAdaptivePrompt g file config =
    (let C = real_of_int (getPlatformLimit (platformOptimizer g) (platform config));
         core = corePrompt g;
         extended = extendedPrompt_for g (platform config);
         exs = examples_for g (detectProjectType file);
         takeExtended = (extended \<noteq> [] \<and>
            real_of_int (estimateTokens core + estimateTokens extended) < 0.7 * C);
         cost = estimateTokens core + (if takeExtended then estimateTokens extended else 0);
         takeExamples = (exs \<noteq> [] \<and> real_of_int (cost + estimateTokens exs) < 0.9 * C)
     in \<lparr>optimizedPrompt =
            core @ (if takeExtended then asc ''\<newline>\<newline>'' @ extended else [])
                 @ (if takeExamples then asc ''\<newline>\<newline>'' @ exs else []),
          warnings = [],
          appliedOptimizations =
            asc ''core'' # (if takeExtended then [asc ''extended''] else [])
                         @ (if takeExamples then [asc ''examples''] else [])\<rparr>)"
  by (simp add: assembleAdaptivePrompt_def Let_def mult.commute)

lemma length_asc [simp]: "length (asc s) = length s"
  by (simp add: asc_def)

lemma configFor_simps [simp]:
  "platform (configFor pf) = pf"
  by (simp add: configFor_def)

lemma scenarioA_eval:
  "getPlatformLimit (platformOptimizer scenarioA) (asc ''tiny'') = 100"
  "extendedPrompt_for scenarioA (asc ''tiny'') = replicate 40 98"
  "examples_for scenarioA (detectProjectType None) = replicate 200 99"
  "corePrompt scenarioA = replicate 80 97"
  by (simp_all add: scenarioA_def configFor_def getPlatformLimit_def tinyLimits_def
      extendedPrompt_for_def examples_for_def detectProjectType_def js_or_def js_or_empty_def)

text \<open>
  C3. The inclusion algorithm of the assembler. With \<open>C\<close> the ceiling of the destination,
  the result starts from the core fragment; the extended fragment is appended after a
  blank line, and the label \<open>extended\<close> added, exactly when it is not empty and the
  estimate of the core plus the estimate of the extended fragment is below \<open>0.7 * C\<close>;
  then the examples fragment is appended, and the label \<open>examples\<close> added, exactly when
  it is not empty and the cost so far (with the extended fragment when that was taken)
  plus its estimate is below \<open>0.9 * C\<close>. Each check is made once, the extended one first.
  The estimate of a text is its length divided by four, rounded up.
\<close>

theorem assembler_inclusion_algorithm:
  "assembleAdaptivePrompt g file config =
    (let C = real_of_int (getPlatformLimit (platformOptimizer g) (platform config));
         core = corePrompt g;
         extended = extendedPrompt_for g (platform config);
         exs = examples_for g (detectProjectType file);
         takeExtended = (extended \<noteq> [] \<and>
            real_of_int (estimateTokens core + estimateTokens extended) < 0.7 * C);
         cost = estimateTokens core + (if takeExtended then estimateTokens extended else 0);
         takeExamples = (exs \<noteq> [] \<and> real_of_int (cost + estimateTokens exs) < 0.9 * C)
     in \<lparr>optimizedPrompt =
            core @ (if takeExtended then asc ''\<newline>\<newline>'' @ extended else [])
                 @ (if takeExamples then asc ''\<newline>\<newline>'' @ exs else []),
          warnings = [],
          appliedOptimizations =
            asc ''core'' # (if takeExtended then [asc ''extended''] else [])
                         @ (if takeExamples then [asc ''examples''] else [])\<rparr>)
   \<and> estimateTokens t = (int (length t) + 3) div 4"
  by (simp only: assemble_explicit estimateTokens_div simp_thms)

theorem assembler_inclusion_algorithm_witness:
  "appliedOptimizations (assembleAdaptivePrompt scenarioA None (configFor (asc ''tiny'')))
     = [asc ''core'', asc ''extended'', asc ''examples''] \<and>
   length (optimizedPrompt (assembleAdaptivePrompt scenarioA None (configFor (asc ''tiny''))))
     = 80 + 2 + 40 + 2 + 200"
  using assembler_inclusion_algorithm [of scenarioA None "configFor (asc ''tiny'')" "[]"]
  by (simp add: Let_def scenarioA_eval estimateTokens_div)

text \<open>
  C4. The document that \<open>generate\<close> returns is the assembly itself: the core fragment,
  then possibly a blank line and the extended fragment, then possibly a blank line and
  the examples fragment. No step of the platform optimizer is applied to it, and the
  warnings of the assembly are empty.
\<close>

theorem generate_returns_assembly:
  "systemPrompt (generate g file config) = optimizedPrompt (assembleAdaptivePrompt g file config) \<and>
   warnings (assembleAdaptivePrompt g file config) = [] \<and>
   (\<exists>e x. (e = [] \<or> e = asc ''\<newline>\<newline>'' @ extendedPrompt_for g (platform config)) \<and>
          (x = [] \<or> x = asc ''\<newline>\<newline>'' @ examples_for g (detectProjectType file)) \<and>
          systemPrompt (generate g file config) = corePrompt g @ e @ x)"
proof -
  have gen: "systemPrompt (generate g file config)
      = optimizedPrompt (assembleAdaptivePrompt g file config)"
    by (simp add: generate_def)
  have w: "warnings (assembleAdaptivePrompt g file config) = []"
    by (simp add: assemble_explicit Let_def)
  have "\<exists>e x. (e = [] \<or> e = asc ''\<newline>\<newline>'' @ extendedPrompt_for g (platform config)) \<and>
          (x = [] \<or> x = asc ''\<newline>\<newline>'' @ examples_for g (detectProjectType file)) \<and>
          optimizedPrompt (assembleAdaptivePrompt g file config) = corePrompt g @ e @ x"
    unfolding assemble_explicit Let_def by (simp del: append_assoc) blast
  with gen w show ?thesis by simp
qed

text \<open>
  C6. The first applied step is \<open>core\<close>, the core fragment is a part of the assembled
  document, and the labels \<open>extended\<close> and \<open>examples\<close> are in the list only if their
  inclusion check succeeded.
\<close>

theorem core_first_and_labels_justified:
  "(let r = assembleAdaptivePrompt g file config;
        steps = appliedOptimizations r;
        C = real_of_int (getPlatformLimit (platformOptimizer g) (platform config));
        core = corePrompt g;
        extended = extendedPrompt_for g (platform config);
        exs = examples_for g (detectProjectType file)
    in steps \<noteq> [] \<and> steps ! 0 = asc ''core'' \<and>
       sublist core (optimizedPrompt r) \<and>
       (asc ''extended'' \<in> set steps \<longrightarrow>
          extended \<noteq> [] \<and>
          real_of_int (estimateTokens core + estimateTokens extended) < 0.7 * C) \<and>
       (asc ''examples'' \<in> set steps \<longrightarrow>
          exs \<noteq> [] \<and>
          real_of_int (estimateTokens core
            + (if asc ''extended'' \<in> set steps then estimateTokens extended else 0)
            + estimateTokens exs) < 0.9 * C))"
  unfolding assemble_explicit Let_def
  by (simp add: labels_distinct del: append_assoc)

theorem core_first_and_labels_justified_witness:
  "appliedOptimizations (assembleAdaptivePrompt scenarioA None (configFor (asc ''tiny''))) ! 0
     = asc ''core'' \<and>
   asc ''extended'' \<in> set (appliedOptimizations
     (assembleAdaptivePrompt scenarioA None (configFor (asc ''tiny'')))) \<and>
   asc ''examples'' \<in> set (appliedOptimizations
     (assembleAdaptivePrompt scenarioA None (configFor (asc ''tiny'')))) \<and>
   estimateTokens (corePrompt scenarioA)
     + estimateTokens (extendedPrompt_for scenarioA (asc ''tiny'')) = 30 \<and>
   real_of_int (estimateTokens (corePrompt scenarioA)
      + estimateTokens (extendedPrompt_for scenarioA (asc ''tiny''))
      + estimateTokens (examples_for scenarioA (detectProjectType None))) < 0.9 * 100"
  using core_first_and_labels_justified [of scenarioA None "configFor (asc ''tiny'')"]
    scenarioA_eval
  by (simp add: Let_def assemble_explicit estimateTokens_div labels_distinct)

section \<open>Fragment resolution\<close>

text \<open>
  C8. The lookup of the extended fragment returns the fragment stored under the
  destination, otherwise the fragment stored under the default destination \<open>cursor\<close>,
  otherwise the empty text; the lookup of the examples returns the fragment stored under
  the category, otherwise the empty text. Both are total functions into texts: absence
  is the empty text, there is no error. An empty text stored under a destination counts
  as absent.
\<close>

theorem fragment_resolution:
  "(\<forall>f. extendedPrompts g pf = Some f \<and> f \<noteq> [] \<longrightarrow> extendedPrompt_for g pf = f) \<and>
   (extendedPrompts g pf = None \<or> extendedPrompts g pf = Some [] \<longrightarrow>
      (\<forall>d. extendedPrompts g (asc ''cursor'') = Some d \<longrightarrow> extendedPrompt_for g pf = d) \<and>
      (extendedPrompts g (asc ''cursor'') = None \<longrightarrow> extendedPrompt_for g pf = [])) \<and>
   (\<forall>f. examples g cat = Some f \<longrightarrow> examples_for g cat = f) \<and>
   (examples g cat = None \<longrightarrow> examples_for g cat = [])"
  by (auto simp: extendedPrompt_for_def examples_for_def js_or_def js_or_empty_def
      split: option.splits)

theorem fragment_resolution_witness:
  "extendedPrompt_for new_AdaptivePromptGenerator (asc ''claude'') = claudeExtended \<and>
   extendedPrompt_for new_AdaptivePromptGenerator (asc ''ollama'') = cursorExtended \<and>
   examples_for new_AdaptivePromptGenerator (asc ''react'') = reactExamples \<and>
   examples_for new_AdaptivePromptGenerator (asc ''vue'') = []"
proof -
  have keys: "asc ''claude'' \<noteq> asc ''copilot''" "asc ''ollama'' \<noteq> asc ''copilot''"
    "asc ''ollama'' \<noteq> asc ''claude''" "asc ''ollama'' \<noteq> asc ''cursor''"
    "asc ''cursor'' \<noteq> asc ''copilot''" "asc ''cursor'' \<noteq> asc ''claude''"
    "asc ''react'' \<noteq> asc ''node''" "asc ''vue'' \<noteq> asc ''node''" "asc ''vue'' \<noteq> asc ''react''"
    by (simp_all add: asc_def)
  have ne: "claudeExtended \<noteq> []"
    by (simp add: claudeExtended_def)
  show ?thesis
    using fragment_resolution [of new_AdaptivePromptGenerator "asc ''claude''" "asc ''react''"]
      fragment_resolution [of new_AdaptivePromptGenerator "asc ''ollama''" "asc ''vue''"]
    by (simp add: new_AdaptivePromptGenerator_def loadExtendedPrompts_def loadExamples_def
        keys ne)
qed

section \<open>Searching in texts\<close>

lemma indexOf_Some_prefix:
  "indexOf s p = Some i \<Longrightarrow> prefix p (drop i s) \<and> i + length p \<le> length s"
proof (induction s arbitrary: i)
  case Nil
  then show ?case by (simp split: if_splits)
next
  case (Cons x xs)
  show ?case
  proof (cases "prefix p (x # xs)")
    case True
    with Cons.prems show ?thesis by (auto dest: prefix_length_le)
  next
    case False
    with Cons.prems obtain j where j: "indexOf xs p = Some j" "i = Suc j" by auto
    with Cons.IH [of j] show ?thesis by simp
  qed
qed

lemma indexOf_prefix: "prefix p s \<Longrightarrow> indexOf s p = Some 0"
  by (cases s) auto

lemma js_includes_sublist: "js_includes s p \<longleftrightarrow> sublist p s"
  unfolding js_includes_def
  by (induction s) (auto simp: sublist_Cons_right)

lemma length_substring_le: "length (substring s a b) \<le> length s"
  unfolding substring_def Let_def by (simp add: min.coboundedI1)

lemma length_substring_bound:
  "0 \<le> a \<Longrightarrow> a \<le> b \<Longrightarrow> int (length (substring s a b)) \<le> b - a"
  unfolding substring_def Let_def by (simp add: min_def max_def) linarith

section \<open>Truncation to the character ceiling\<close>

lemma length_truncationMessage: "length truncationMessage = 40"
  by (simp add: truncationMessage_def)

text \<open>
  From a ceiling of 40 characters on, the length of the truncation marker, the result of
  \<open>truncatePrompt\<close> is within the ceiling.
\<close>

lemma truncatePrompt_bound:
  assumes "40 \<le> maxChars"
  shows "int (length (truncatePrompt prompt maxChars)) \<le> maxChars"
proof (cases "int (length prompt) \<le> maxChars")
  case True
  then show ?thesis by (simp add: truncatePrompt_def)
next
  case False
  define fl where "fl = (case footerMatch prompt of Some f \<Rightarrow> int (length f) | None \<Rightarrow> 0)"
  define footer where "footer = (case footerMatch prompt of Some f \<Rightarrow> f | None \<Rightarrow> [])"
  define hl where
    "hl = (case coreHeaderMatch prompt of Some h \<Rightarrow> int (length h) | None \<Rightarrow> 0)"
  define simple where "simple = substring prompt 0 (maxChars - 40)"
  define mainContent where
    "mainContent = substring prompt hl (hl + (maxChars - 40 - fl - hl))"
  have fl: "int (length footer) = fl"
    by (simp_all add: fl_def footer_def split: option.splits)
  have hl: "0 \<le> hl"
    by (simp add: hl_def split: option.splits)
  have simple: "int (length simple) \<le> maxChars - 40"
    unfolding simple_def using length_substring_bound [of 0 "maxChars - 40" prompt] assms by simp
  have simple2: "int (length (substring simple 0 k)) \<le> maxChars - 40" for k
    using length_substring_le [of simple 0 k] simple by linarith
  have hdr: "int (length (substring prompt 0 hl)) \<le> hl"
    using length_substring_bound [of 0 hl prompt] hl by simp
  have main: "0 < maxChars - 40 - fl - hl \<Longrightarrow>
      int (length mainContent) \<le> maxChars - 40 - fl - hl"
    unfolding mainContent_def
    using length_substring_bound [of hl "hl + (maxChars - 40 - fl - hl)" prompt] hl by simp
  have main2: "0 < maxChars - 40 - fl - hl \<Longrightarrow>
      int (length (substring mainContent 0 k)) \<le> maxChars - 40 - fl - hl" for k
    using length_substring_le [of mainContent 0 k] main by linarith
  have eq: "truncatePrompt prompt maxChars =
     (if real_of_int (maxChars - 40 - fl) < real (length prompt) * 0.3 then
        (if real_of_int (lastIndexOf simple (asc ''\<newline>\<newline>''))
              > real_of_int (maxChars - 40) * 0.8
         then substring simple 0 (lastIndexOf simple (asc ''\<newline>\<newline>'')) @ truncationMessage
         else simple @ truncationMessage)
      else if maxChars - 40 - fl - hl > 0 then
        substring prompt 0 hl
          @ (if real_of_int (lastIndexOf mainContent (asc ''\<newline>\<newline>''))
                > real_of_int (maxChars - 40 - fl - hl) * 0.8
             then substring mainContent 0 (lastIndexOf mainContent (asc ''\<newline>\<newline>''))
             else mainContent)
          @ truncationMessage @ footer
      else simple @ truncationMessage)"
    using False
    unfolding truncatePrompt_def Let_def length_truncationMessage
      fl_def footer_def hl_def simple_def mainContent_def
    by simp
  show ?thesis
    unfolding eq
    using simple simple2 [of "lastIndexOf simple (asc ''\<newline>\<newline>'')"] hdr main
      main2 [of "lastIndexOf mainContent (asc ''\<newline>\<newline>'')"] fl
    by (auto simp: length_truncationMessage)
qed

text \<open>
  C2, as stated: whenever the document is longer than the ceiling, the result of the
  truncation is within the ceiling. It fails below 40, the length of the truncation
  marker: the marker is appended in every branch, so a document of 13 characters
  truncated to a ceiling of 10 has 40 characters.
\<close>

theorem truncation_ceiling_counterexample:
  "int (length (asc ''Hello, world!'')) > 10 \<and>
   \<not> int (length (truncatePrompt (asc ''Hello, world!'') 10)) \<le> 10"
  by (simp add: truncatePrompt_def footerMatch_def Let_def length_truncationMessage asc_def
      substring_def)

text \<open>
  C2, amended: for every document and every ceiling of at least 40 characters, when the
  document is longer than the ceiling the result of \<open>truncatePrompt\<close> has at most as
  many characters as the ceiling.
\<close>

theorem truncation_ceiling_invariant:
  "40 \<le> maxChars \<Longrightarrow> int (length prompt) > maxChars \<Longrightarrow>
   int (length (truncatePrompt prompt maxChars)) \<le> maxChars"
  by (rule truncatePrompt_bound)

theorem truncation_ceiling_invariant_witness:
  "(40::int) \<le> 50 \<and> int (length (replicate 100 (97::code_unit))) > 50 \<and>
   int (length (truncatePrompt (replicate 100 97) 50)) \<le> 50"
  using truncation_ceiling_invariant [of 50 "replicate 100 97"] by simp

section \<open>Header injection\<close>

lemma headerMatch_prefix:
  assumes "headerMatch p = Some h"
  shows "prefix h p"
  using assms by (auto simp: headerMatch_def take_is_prefix split: if_splits option.splits)

lemma getSubstitution_plain:
  "36 \<notin> set r \<Longrightarrow> getSubstitution m s pos r = r"
  by (induction m s pos r rule: getSubstitution.induct) auto

lemma insertAfterHeader_None:
  "headerMatch p = None \<Longrightarrow> insertAfterHeader p c = c @ p"
  by (simp add: insertAfterHeader_def)

lemma insertAfterHeader_Some:
  assumes "headerMatch p = Some h" and "36 \<notin> set h" and "36 \<notin> set c"
  shows "insertAfterHeader p c = h @ c @ drop (length h) p"
  using assms indexOf_prefix [OF headerMatch_prefix [OF assms(1)]]
  by (simp add: insertAfterHeader_def replace_first_def getSubstitution_plain)

text \<open>
  Where neither the prompt nor the preamble has a dollar sign, the preamble is inserted
  and nothing else changes.
\<close>

lemma insertAfterHeader_length:
  assumes "36 \<notin> set p" and "36 \<notin> set c"
  shows "length (insertAfterHeader p c) = length p + length c"
proof (cases "headerMatch p")
  case None
  then show ?thesis by (simp add: insertAfterHeader_None)
next
  case (Some h)
  have pre: "prefix h p" by (rule headerMatch_prefix [OF Some])
  then have "36 \<notin> set h" using assms(1) by (auto simp: prefix_def)
  then have "insertAfterHeader p c = h @ c @ drop (length h) p"
    using assms(2) by (intro insertAfterHeader_Some [OF Some])
  moreover have "length h \<le> length p" using pre by (rule prefix_length_le)
  ultimately show ?thesis by simp
qed

text \<open>
  C10. The header-insertion helper is meant to return the prompt with the preamble
  inserted after the header, every character of the prompt kept. It does so through
  \<open>String.prototype.replace\<close>, which expands dollar patterns in the replacement text, and
  the replacement text starts with the matched header: a header with \<open>$$\<close> loses one of
  the two dollar signs. Here the prompt has 26 characters and the preamble 3, and the
  result has 28, not 29.
\<close>

theorem insertAfterHeader_dollar:
  "insertAfterHeader (asc ''# Price in $$\<newline>\<newline>Intro\<newline>\<newline>Body'') (asc ''[P]'')
     = asc ''# Price in $\<newline>\<newline>Intro\<newline>\<newline>[P]Body'' \<and>
   length (insertAfterHeader (asc ''# Price in $$\<newline>\<newline>Intro\<newline>\<newline>Body'') (asc ''[P]''))
     \<noteq> length (asc ''# Price in $$\<newline>\<newline>Intro\<newline>\<newline>Body'') + length (asc ''[P]'')"
  by (simp add: insertAfterHeader_def headerMatch_def replace_first_def asc_def)

section \<open>The generator with its own fragments\<close>

lemma fragment_lengths:
  "length getCorePrompt = 1608" "length cursorExtended = 621" "length claudeExtended = 357"
  "length copilotExtended = 416" "length reactExamples = 642" "length nodeExamples = 431"
  by (simp_all add: getCorePrompt_def cursorExtended_def claudeExtended_def
      copilotExtended_def reactExamples_def nodeExamples_def)

lemma fragments_nonempty:
  "cursorExtended \<noteq> []" "claudeExtended \<noteq> []" "copilotExtended \<noteq> []"
  "reactExamples \<noteq> []" "nodeExamples \<noteq> []"
  using fragment_lengths by auto

lemma key_distinct:
  "asc ''cursor'' \<noteq> asc ''claude''" "asc ''cursor'' \<noteq> asc ''copilot''"
  "asc ''cursor'' \<noteq> asc ''ollama''" "asc ''cursor'' \<noteq> asc ''universal''"
  "asc ''claude'' \<noteq> asc ''copilot''" "asc ''claude'' \<noteq> asc ''ollama''"
  "asc ''claude'' \<noteq> asc ''universal''" "asc ''copilot'' \<noteq> asc ''ollama''"
  "asc ''copilot'' \<noteq> asc ''universal''" "asc ''ollama'' \<noteq> asc ''universal''"
  "asc ''react'' \<noteq> asc ''node''" "asc ''react'' \<noteq> asc ''vue''"
  "asc ''react'' \<noteq> asc ''angular''" "asc ''node'' \<noteq> asc ''vue''"
  "asc ''node'' \<noteq> asc ''angular''" "asc ''vue'' \<noteq> asc ''angular''"
  by (simp_all add: asc_def)

lemmas key_distinct_sym = key_distinct [symmetric]

lemma shipped_extended:
  "extendedPrompt_for new_AdaptivePromptGenerator pf =
     (if pf = asc ''claude'' then claudeExtended
      else if pf = asc ''copilot'' then copilotExtended
      else cursorExtended)"
  by (simp add: extendedPrompt_for_def new_AdaptivePromptGenerator_def loadExtendedPrompts_def
      js_or_def js_or_empty_def fragments_nonempty key_distinct key_distinct_sym)

lemma detectProjectType_cases:
  "detectProjectType file \<in> {asc ''react'', asc ''vue'', asc ''angular'', asc ''node''}"
  by (simp add: detectProjectType_def split: option.splits)

lemma shipped_examples:
  "examples_for new_AdaptivePromptGenerator k =
     (if k = asc ''react'' then reactExamples
      else if k = asc ''node'' then nodeExamples
      else [])"
  by (simp add: examples_for_def new_AdaptivePromptGenerator_def loadExamples_def
      js_or_def js_or_empty_def key_distinct key_distinct_sym)

lemma shipped_limit:
  "getPlatformLimit new_PlatformOptimizer pf =
     (if pf = asc ''cursor'' then 15000
      else if pf = asc ''claude'' then 20000
      else if pf = asc ''ollama'' then 8000
      else if pf = asc ''universal'' then 12000
      else 10000)"
  by (simp add: getPlatformLimit_def new_PlatformOptimizer_def initializePlatformLimits_def
      cursorLimits_def claudeLimits_def ollamaLimits_def universalLimits_def
      key_distinct key_distinct_sym)

lemma shipped_generator_fields [simp]:
  "corePrompt new_AdaptivePromptGenerator = getCorePrompt"
  "platformOptimizer new_AdaptivePromptGenerator = new_PlatformOptimizer"
  by (simp_all add: new_AdaptivePromptGenerator_def)

lemma shipped_extended_bounds:
  "extendedPrompt_for new_AdaptivePromptGenerator pf \<noteq> []"
  "length (extendedPrompt_for new_AdaptivePromptGenerator pf) \<le> 621"
  by (simp_all add: shipped_extended fragments_nonempty fragment_lengths)

lemma shipped_examples_bound:
  "length (examples_for new_AdaptivePromptGenerator k) \<le> 642"
  by (simp add: shipped_examples fragment_lengths)

lemma shipped_limit_bound: "8000 \<le> getPlatformLimit new_PlatformOptimizer pf"
  by (simp add: shipped_limit)

lemma shipped_assembly:
  "assembleAdaptivePrompt new_AdaptivePromptGenerator file config =
     \<lparr>optimizedPrompt =
        getCorePrompt @ asc ''\<newline>\<newline>''
          @ extendedPrompt_for new_AdaptivePromptGenerator (platform config)
          @ (if examples_for new_AdaptivePromptGenerator (detectProjectType file) = [] then []
             else asc ''\<newline>\<newline>''
                    @ examples_for new_AdaptivePromptGenerator (detectProjectType file)),
      warnings = [],
      appliedOptimizations =
        [asc ''core'', asc ''extended'']
          @ (if examples_for new_AdaptivePromptGenerator (detectProjectType file) = [] then []
             else [asc ''examples''])\<rparr>"
proof -
  define E where "E = extendedPrompt_for new_AdaptivePromptGenerator (platform config)"
  define X where "X = examples_for new_AdaptivePromptGenerator (detectProjectType file)"
  define L where "L = getPlatformLimit new_PlatformOptimizer (platform config)"
  have E: "E \<noteq> []" "length E \<le> 621"
    unfolding E_def by (rule shipped_extended_bounds)+
  have X: "length X \<le> 642"
    unfolding X_def by (rule shipped_examples_bound)
  have L: "8000 \<le> L"
    unfolding L_def by (rule shipped_limit_bound)
  have core: "estimateTokens getCorePrompt = 402"
    by (simp add: estimateTokens_div fragment_lengths)
  have eE: "estimateTokens E \<le> 156"
    using E(2) unfolding estimateTokens_div by linarith
  have eX: "estimateTokens X \<le> 161"
    using X unfolding estimateTokens_div by linarith
  have c1: "real_of_int (402 + estimateTokens E) < 0.7 * real_of_int L"
    using eE L by simp
  have c2: "real_of_int (402 + estimateTokens E + estimateTokens X) < 0.9 * real_of_int L"
    using eE eX L by simp
  show ?thesis
    unfolding assemble_explicit Let_def shipped_generator_fields
      E_def [symmetric] X_def [symmetric] L_def [symmetric] core
    using E(1) c1 c2 by simp
qed

section \<open>Lines\<close>

lemma split_nl_nonempty [simp]: "split_nl s \<noteq> []"
  by (induction s) (auto split: list.splits)


lemma split_nl_append_newline: "split_nl (a @ NL # b) = split_nl a @ split_nl b"
proof (induction a)
  case Nil
  show ?case by simp
next
  case (Cons c a)
  show ?case
  proof (cases "c = NL")
    case True
    with Cons show ?thesis by simp
  next
    case False
    obtain l ls where "split_nl a = l # ls"
      using split_nl_nonempty [of a] by (cases "split_nl a") auto
    with False Cons show ?thesis by simp
  qed
qed

lemma length_split_nl: "length (split_nl s) = Suc (length (filter (\<lambda>c. c = NL) s))"
  by (induction s) (auto split: list.splits)

lemma join_nl_Cons: "ls \<noteq> [] \<Longrightarrow> join_nl (l # ls) = l @ NL # join_nl ls"
  by (cases ls) auto

lemma join_split_nl: "join_nl (split_nl s) = s"
proof (induction s)
  case Nil
  show ?case by simp
next
  case (Cons c s)
  obtain l ls where ls: "split_nl s = l # ls"
    using split_nl_nonempty [of s] by (cases "split_nl s") auto
  show ?case
  proof (cases "c = NL")
    case True
    with Cons show ?thesis by (simp add: join_nl_Cons)
  next
    case False
    with Cons ls show ?thesis by (cases ls) auto
  qed
qed

section \<open>Replacement where nothing matches\<close>

lemma replace_all_no_match:
  "\<not> sublist pat s \<Longrightarrow> replace_all s pat rep = s"
proof (induction s)
  case Nil
  show ?case by simp
next
  case (Cons x xs)
  from Cons.prems have "\<not> prefix pat (x # xs)" "\<not> sublist pat xs"
    by (auto simp: sublist_Cons_right)
  with Cons.IH show ?case by simp
qed

lemma replace_all_foreign:
  assumes "pat \<noteq> []" and "hd pat \<notin> set s"
  shows "replace_all s pat rep = s"
proof (rule replace_all_no_match)
  show "\<not> sublist pat s"
  proof
    assume "sublist pat s"
    then have "set pat \<subseteq> set s" by (rule set_mono_sublist)
    with assms show False by (cases pat) auto
  qed
qed

lemma boldMatch_star: "boldMatch s = Some r \<Longrightarrow> 42 \<in> set s"
  by (auto simp: boldMatch_def asc_def prefix_def split: if_splits)

lemma replaceBold_no_star: "42 \<notin> set s \<Longrightarrow> replaceBold s = s"
proof (induction s)
  case Nil
  show ?case by simp
next
  case (Cons x xs)
  then have "boldMatch (x # xs) = None"
    using boldMatch_star [of "x # xs"] by (cases "boldMatch (x # xs)") auto
  with Cons show ?case by simp
qed

lemma ascii_not_symbol:
  fixes c :: code_unit
  assumes "c < 0x80"
  shows "\<not> symbolCodePoint (unat c)" and "\<not> 0xD800 \<le> c"
proof -
  from assms have "unat c < 128" by (simp add: word_less_nat_alt)
  then show "\<not> symbolCodePoint (unat c)" by (simp add: symbolCodePoint_def)
  from assms show "\<not> 0xD800 \<le> c" by (simp add: word_less_nat_alt word_le_nat_alt)
qed

lemma stripSymbols_ascii: "\<forall>c\<in>set s. c < 0x80 \<Longrightarrow> stripSymbols s = s"
  by (induction s rule: stripSymbols.induct) (auto simp: ascii_not_symbol)

lemma removeEmojis_ascii:
  assumes "\<forall>c\<in>set s. c < 0x80"
  shows "removeEmojis s = s"
proof -
  have "c \<notin> set s" if "\<not> c < 0x80" for c
    using assms that by auto
  then have "0x011F \<notin> set s" "0x00E2 \<notin> set s"
    by simp_all
  then show ?thesis
    unfolding removeEmojis_def
    by (simp add: replace_all_foreign stripSymbols_ascii assms)
qed

section \<open>The warnings of the optimizer\<close>

lemma asc_append: "asc (a @ b) = asc a @ asc b"
  by (simp add: asc_def)

lemma mentions_truncated_warning:
  "mentionsTruncated (asc ''Prompt truncated to '' @ x)"
proof -
  have "asc ''Prompt truncated to '' = asc ''Prompt '' @ asc ''truncated'' @ asc '' to ''"
    by (simp add: asc_def)
  then show ?thesis
    by (simp add: mentionsTruncated_def js_includes_sublist)
qed

text \<open>The decimal digits are code units from 48 to 57.\<close>

lemma digits_nonempty: "digits n \<noteq> []"
  by (subst digits.simps) simp

lemma digit_unit: "n < 10 \<Longrightarrow> unat (of_nat (48 + n) :: code_unit) = 48 + n"
  by (subst unat_of_nat) simp

lemma digits_range: "c \<in> set (digits n) \<Longrightarrow> 48 \<le> unat c \<and> unat c \<le> 57"
proof (induction n arbitrary: c rule: digits.induct)
  case (1 n)
  have mod: "n mod 10 < 10" by simp
  show ?case
  proof (cases "n < 10")
    case True
    have "digits n = [of_nat (48 + n)]"
      by (subst digits.simps) (simp only: True if_True)
    with "1.prems" have "c = of_nat (48 + n)" by (simp only: list.set singleton_iff)
    with digit_unit [OF True] True show ?thesis by (simp only:) simp
  next
    case False
    have "digits n = digits (n div 10) @ [of_nat (48 + n mod 10)]"
      by (subst digits.simps) (simp only: False if_False)
    with "1.prems" have "c \<in> set (digits (n div 10)) \<or> c = of_nat (48 + n mod 10)"
      by (simp only: set_append list.set) blast
    then show ?thesis
    proof
      assume "c \<in> set (digits (n div 10))"
      with False "1.IH" show ?thesis by simp
    next
      assume "c = of_nat (48 + n mod 10)"
      with digit_unit [OF mod] mod show ?thesis by (simp only:) simp
    qed
  qed
qed

lemma digits_no_letter:
  "116 \<notin> set (digits n)" "114 \<notin> set (digits n)"
  using digits_range [of 116 n] digits_range [of 114 n] by auto

lemma pair_not_in_append:
  assumes "\<not> sublist [a, b] xs" and "\<not> sublist [a, b] ys"
    and "xs = [] \<or> last xs \<noteq> a \<or> ys = [] \<or> hd ys \<noteq> b"
  shows "\<not> sublist [a, b] (xs @ ys)"
proof
  assume "sublist [a, b] (xs @ ys)"
  with assms(1,2) obtain xs1 xs2
    where split: "[a, b] = xs1 @ xs2" and suf: "suffix xs1 xs" and pre: "prefix xs2 ys"
    by (auto simp: sublist_append)
  have "xs1 = [] \<and> xs2 = [a, b] \<or> xs1 = [a] \<and> xs2 = [b] \<or> xs1 = [a, b] \<and> xs2 = []"
  proof (cases xs1)
    case Nil
    with split show ?thesis by simp
  next
    case (Cons y ys1)
    with split have y: "y = a" and rest: "[b] = ys1 @ xs2" by simp_all
    show ?thesis
    proof (cases ys1)
      case Nil
      with rest y Cons show ?thesis by simp
    next
      case (Cons z zs)
      with rest have "z = b" "zs = []" "xs2 = []" by simp_all
      with y Cons \<open>xs1 = y # ys1\<close> show ?thesis by simp
    qed
  qed
  then consider "xs1 = []" "xs2 = [a, b]" | "xs1 = [a]" "xs2 = [b]" | "xs1 = [a, b]" "xs2 = []"
    by blast
  then show False
  proof cases
    case 1
    with pre assms(2) show False by auto
  next
    case 2
    from suf 2 obtain u where "xs = u @ [a]" by (auto simp: suffix_def)
    moreover from pre 2 obtain v where "ys = b # v" by (auto simp: prefix_def)
    ultimately show False using assms(3) by simp
  next
    case 3
    with suf assms(1) show False by auto
  qed
qed

lemma number_toString_nat: "number_toString (int n) = digits n"
  by (simp add: number_toString_def)

lemma number_toString_20000: "number_toString 20000 = asc ''20000''"
  by (simp add: number_toString_def digits.simps asc_def)

lemma claude_warning_silent:
  "\<not> mentionsTruncated
      (asc ''Prompt is '' @ number_toString (int n) @ asc '' characters (within Claude's ''
         @ number_toString 20000 @ asc '' limit)'')"
proof -
  define A where "A = asc ''Prompt is ''"
  define B where "B = asc '' characters (within Claude's '' @ number_toString 20000 @ asc '' limit)''"
  define D where "D = digits n"
  have A: "\<not> sublist [116, 114] A"
    unfolding A_def js_includes_sublist [symmetric] by (simp add: js_includes_def asc_def)
  have B: "\<not> sublist [116, 114] B"
    unfolding B_def number_toString_20000 js_includes_sublist [symmetric]
    by (simp add: js_includes_def asc_def)
  have D: "D \<noteq> []" "116 \<notin> set D" "114 \<notin> set D"
    unfolding D_def by (rule digits_nonempty digits_no_letter)+
  from D(2) have D': "\<not> sublist [116, 114] D"
    using set_mono_sublist [of "[116, 114]" D] by auto
  from D(1,2) have "last D \<noteq> 116"
    by (metis last_in_set)
  with D' B have DB: "\<not> sublist [116, 114] (D @ B)"
    by (simp add: pair_not_in_append)
  from D(1,3) have "hd (D @ B) \<noteq> 114"
    by (metis hd_append2 hd_in_set)
  with A DB have "\<not> sublist [116, 114] (A @ D @ B)"
    using pair_not_in_append [of 116 114 A "D @ B"] by blast
  moreover have "sublist [116, 114] (asc ''truncated'')"
    unfolding js_includes_sublist [symmetric] by (simp add: js_includes_def asc_def)
  ultimately have "\<not> sublist (asc ''truncated'') (A @ D @ B)"
    using sublist_order.order.trans by blast
  then show ?thesis
    by (simp add: mentionsTruncated_def js_includes_sublist A_def B_def D_def number_toString_nat)
qed

lemma shipped_limits:
  "platformLimits new_PlatformOptimizer (asc ''cursor'') = Some cursorLimits"
  "platformLimits new_PlatformOptimizer (asc ''claude'') = Some claudeLimits"
  "platformLimits new_PlatformOptimizer (asc ''ollama'') = Some ollamaLimits"
  "platformLimits new_PlatformOptimizer (asc ''universal'') = Some universalLimits"
  by (simp_all add: new_PlatformOptimizer_def initializePlatformLimits_def
      key_distinct key_distinct_sym)

text \<open>The character check, for a limit of at least 40.\<close>

lemma checkCharacterLimit_correlation:
  assumes "40 \<le> m"
  shows "(\<exists>w\<in>set (snd (checkCharacterLimit p (Some m) label)). mentionsTruncated w)
      \<longleftrightarrow> length (fst (checkCharacterLimit p (Some m) label)) \<noteq> length p"
    and "\<forall>w\<in>set (snd (checkCharacterLimit p (Some m) label)). mentionsTruncated w"
    and "snd (checkCharacterLimit p (Some m) label) = []
      \<Longrightarrow> fst (checkCharacterLimit p (Some m) label) = p"
proof -
  show "\<forall>w\<in>set (snd (checkCharacterLimit p (Some m) label)). mentionsTruncated w"
    by (simp add: checkCharacterLimit_def mentions_truncated_warning)
  show "snd (checkCharacterLimit p (Some m) label) = []
      \<Longrightarrow> fst (checkCharacterLimit p (Some m) label) = p"
    by (simp add: checkCharacterLimit_def split: if_splits)
  show "(\<exists>w\<in>set (snd (checkCharacterLimit p (Some m) label)). mentionsTruncated w)
      \<longleftrightarrow> length (fst (checkCharacterLimit p (Some m) label)) \<noteq> length p"
  proof (cases "int (length p) > m")
    case True
    with truncatePrompt_bound [OF assms, of p] have "length (truncatePrompt p m) \<noteq> length p"
      by linarith
    with True show ?thesis
      by (simp add: checkCharacterLimit_def mentions_truncated_warning)
  next
    case False
    then show ?thesis by (simp add: checkCharacterLimit_def)
  qed
qed

lemma optimize_cursor:
  assumes "platform config = asc ''cursor''"
  shows "optimize new_PlatformOptimizer prompt config =
     Inr \<lparr>optimizedPrompt =
            fst (checkCharacterLimit (preTruncation (asc ''cursor'') prompt) (Some 15000) ''Cursor''),
          warnings =
            snd (checkCharacterLimit (preTruncation (asc ''cursor'') prompt) (Some 15000) ''Cursor''),
          appliedOptimizations =
            [asc ''Added Cursor-specific code generation focus'',
             asc ''Enhanced code-related sections'']\<rparr>"
  using assms
  by (simp add: optimize_def optimizeForCursor_def shipped_limits cursorLimits_def
      preTruncation_def Let_def split: prod.splits)

lemma optimize_universal:
  assumes "platform config \<noteq> asc ''cursor''" "platform config \<noteq> asc ''claude''"
    "platform config \<noteq> asc ''ollama''"
  shows "optimize new_PlatformOptimizer prompt config =
     Inr \<lparr>optimizedPrompt =
            fst (checkCharacterLimit (preTruncation (platform config) prompt) (Some 12000) ''universal''),
          warnings =
            snd (checkCharacterLimit (preTruncation (platform config) prompt) (Some 12000) ''universal''),
          appliedOptimizations = [asc ''Added universal compatibility optimization'']\<rparr>"
  using assms
  by (simp add: optimize_def optimizeForUniversal_def shipped_limits universalLimits_def
      preTruncation_def Let_def split: prod.splits)

lemma optimize_claude:
  assumes "platform config = asc ''claude''"
  shows "optimize new_PlatformOptimizer prompt config =
     Inr \<lparr>optimizedPrompt = preTruncation (asc ''claude'') prompt,
          warnings =
            (if int (length (preTruncation (asc ''claude'') prompt)) > 20000
             then [asc ''Prompt is ''
                     @ number_toString (int (length (preTruncation (asc ''claude'') prompt)))
                     @ asc '' characters (within Claude's '' @ number_toString 20000
                     @ asc '' limit)'']
             else []),
          appliedOptimizations =
            [asc ''Added Claude-specific structured thinking'',
             asc ''Enhanced structured sections'',
             asc ''Added detailed examples'']\<rparr>"
  using assms
  by (simp add: optimize_def optimizeForClaude_def shipped_limits claudeLimits_def
      preTruncation_def Let_def key_distinct key_distinct_sym)

lemma optimize_ollama:
  assumes "platform config = asc ''ollama''"
  shows "optimize new_PlatformOptimizer prompt config =
     (let checked = checkCharacterLimit (preTruncation (asc ''ollama'') prompt) (Some 8000) ''Ollama''
      in Inr \<lparr>optimizedPrompt =
                 (if int (length (split_nl (fst checked))) > 300
                  then truncateByLines (fst checked) 300 else fst checked),
               warnings =
                 (if int (length (split_nl (fst checked))) > 300
                  then snd checked @ [asc ''Prompt truncated to '' @ number_toString 300
                                        @ asc '' lines for Ollama compatibility'']
                  else snd checked),
               appliedOptimizations =
                 [asc ''Added Ollama-specific local model optimization'',
                  asc ''Removed emojis for local model compatibility'',
                  asc ''Simplified structure for local models'']\<rparr>)"
  using assms
  by (simp add: optimize_def optimizeForOllama_def shipped_limits ollamaLimits_def
      preTruncation_def Let_def key_distinct key_distinct_sym split: prod.splits)

lemma warning_correlation_shipped:
  "\<exists>r. optimize new_PlatformOptimizer prompt config = Inr r \<and>
     (length (optimizedPrompt r) \<noteq> length (preTruncation (platform config) prompt)
        \<longrightarrow> (\<exists>w\<in>set (warnings r). mentionsTruncated w)) \<and>
     (\<not> (platform config = asc ''ollama'' \<and> ollamaLineLimitApplies prompt)
        \<longrightarrow> (\<exists>w\<in>set (warnings r). mentionsTruncated w)
        \<longrightarrow> length (optimizedPrompt r) \<noteq> length (preTruncation (platform config) prompt))"
proof -
  consider (cursor) "platform config = asc ''cursor''"
    | (claude) "platform config = asc ''claude''"
    | (ollama) "platform config = asc ''ollama''"
    | (other) "platform config \<noteq> asc ''cursor''" "platform config \<noteq> asc ''claude''"
        "platform config \<noteq> asc ''ollama''"
    by blast
  then show ?thesis
  proof cases
    case cursor
    show ?thesis
      unfolding optimize_cursor [OF cursor] cursor
      using checkCharacterLimit_correlation(1)
        [of 15000 "preTruncation (asc ''cursor'') prompt" "''Cursor''"]
      by simp
  next
    case claude
    show ?thesis
      unfolding optimize_claude [OF claude] claude
      by (simp add: claude_warning_silent)
  next
    case other
    show ?thesis
      unfolding optimize_universal [OF other]
      using checkCharacterLimit_correlation(1)
        [of 12000 "preTruncation (platform config) prompt" "''universal''"]
      by simp
  next
    case ollama
    define pre where "pre = preTruncation (asc ''ollama'') prompt"
    define checked where "checked = checkCharacterLimit pre (Some 8000) ''Ollama''"
    have c1: "(\<exists>w\<in>set (snd checked). mentionsTruncated w) \<longleftrightarrow> length (fst checked) \<noteq> length pre"
      and c2: "\<forall>w\<in>set (snd checked). mentionsTruncated w"
      and c3: "snd checked = [] \<Longrightarrow> fst checked = pre"
      unfolding checked_def by (rule checkCharacterLimit_correlation; simp)+
    have lines: "ollamaLineLimitApplies prompt \<longleftrightarrow> int (length (split_nl (fst checked))) > 300"
      by (simp add: ollamaLineLimitApplies_def checked_def pre_def)
    show ?thesis
    proof (cases "int (length (split_nl (fst checked))) > 300")
      case True
      then show ?thesis
        unfolding optimize_ollama [OF ollama] ollama Let_def
          pre_def [symmetric] checked_def [symmetric] lines
        by (simp add: mentions_truncated_warning)
    next
      case False
      then show ?thesis
        unfolding optimize_ollama [OF ollama] ollama Let_def
          pre_def [symmetric] checked_def [symmetric] lines
        using c1 by simp
    qed
  qed
qed

lemma truncateByLines_cut:
  assumes a: "int (length (split_nl a)) = m - 2"
    and over: "int (length (split_nl (a @ NL # b))) > m"
  shows "truncateByLines (a @ NL # b) m = a @ truncationMessage"
proof -
  have "slice0 (split_nl (a @ NL # b)) (m - 2) = split_nl a"
    using a by (simp add: slice0_def Let_def split_nl_append_newline)
  then show ?thesis
    using over
    by (simp add: truncateByLines_def Let_def join_split_nl truncationMessage_def asc_def)
qed

lemma not_prefix_replicate:
  "p \<noteq> [] \<Longrightarrow> hd p \<noteq> c \<Longrightarrow> \<not> prefix p (replicate n c)"
  by (cases p; cases n) auto

lemma headerMatch_replicate:
  "c \<noteq> 35 \<Longrightarrow> headerMatch (replicate n c) = None"
  by (simp add: headerMatch_def not_prefix_replicate asc_def)

lemma ollamaPrefix_facts:
  "length ollamaPrefix = 228"
  "\<forall>c\<in>set ollamaPrefix. c < 0x80"
  "length (filter (\<lambda>c. c = NL) ollamaPrefix) = 10"
  "42 \<notin> set ollamaPrefix"
  "\<not> sublist (asc ''### '') ollamaPrefix"
  "\<not> sublist (asc ''#### '') ollamaPrefix"
  "\<not> sublist (asc ''- [ ]'') ollamaPrefix"
  unfolding js_includes_sublist [symmetric]
  by (simp_all add: ollamaPrefix_def asc_def js_includes_def)

lemma sublist_append_foreign:
  assumes "pat \<noteq> []" and "set pat \<inter> set b = {}"
  shows "sublist pat (a @ b) \<longleftrightarrow> sublist pat a"
proof
  assume "sublist pat a"
  then show "sublist pat (a @ b)"
    by (simp add: sublist_append)
next
  assume "sublist pat (a @ b)"
  then consider "sublist pat a" | "sublist pat b"
    | xs1 xs2 where "pat = xs1 @ xs2" "suffix xs1 a" "prefix xs2 b"
    by (auto simp: sublist_append)
  then show "sublist pat a"
  proof cases
    case 1
    then show ?thesis .
  next
    case 2
    then have "set pat \<subseteq> set b" by (rule set_mono_sublist)
    with assms show ?thesis by (cases pat) auto
  next
    case 3
    from 3(3) have "set xs2 \<subseteq> set b" by (auto simp: prefix_def)
    with assms(2) 3(1) have "xs2 = []" by (cases xs2) auto
    with 3 show ?thesis by auto
  qed
qed

lemma ollama_blank_pre:
  "preTruncation (asc ''ollama'') (replicate n NL) = ollamaPrefix @ replicate n NL"
proof -
  let ?d = "ollamaPrefix @ replicate n NL"
  have ins: "insertAfterHeader (replicate n NL) ollamaPrefix = ?d"
    by (simp add: insertAfterHeader_None headerMatch_replicate)
  have ascii: "\<forall>c\<in>set ?d. c < 0x80"
    using ollamaPrefix_facts(2) by auto
  have nostar: "42 \<notin> set ?d"
    using ollamaPrefix_facts(4) by auto
  have nosub: "\<not> sublist (asc ''### '') ?d" "\<not> sublist (asc ''#### '') ?d"
    "\<not> sublist (asc ''- [ ]'') ?d"
    using ollamaPrefix_facts(5,6,7)
    by (simp_all add: sublist_append_foreign asc_def)
  show ?thesis
    by (simp add: preTruncation_def key_distinct key_distinct_sym ins removeEmojis_ascii [OF ascii]
        simplifyStructure_def replace_all_no_match nosub replaceBold_no_star [OF nostar])
qed

text \<open>
  C7, as stated: the warnings mention \<open>truncated\<close> if and only if the final document
  and the document before the truncation steps differ in length. On the Ollama path the
  line limit replaces everything after line 298 by the 40 characters of a blank line and
  the marker line. For a prompt of 327 empty lines the document before truncation has 555
  characters and 338 lines, the last 39 of its line breaks are replaced, and the result
  has 555 characters again: the warning is there and the length is the same.
\<close>

theorem warning_correlation_counterexample:
  "\<exists>r. optimize new_PlatformOptimizer blankLines (configFor (asc ''ollama'')) = Inr r \<and>
     warnings r = [asc ''Prompt truncated to 300 lines for Ollama compatibility''] \<and>
     mentionsTruncated (asc ''Prompt truncated to 300 lines for Ollama compatibility'') \<and>
     length (optimizedPrompt r) = 555 \<and>
     length (preTruncation (asc ''ollama'') blankLines) = 555"
proof -
  define a where "a = ollamaPrefix @ replicate 287 NL"
  define b :: jsstring where "b = replicate 39 NL"
  have "(327::nat) = 287 + Suc 39"
    by simp
  then have "replicate 327 NL = replicate 287 NL @ NL # replicate 39 NL"
    by (simp only: replicate_add replicate_Suc)
  then have split: "ollamaPrefix @ replicate 327 NL = a @ NL # b"
    unfolding a_def b_def by simp
  have pre: "preTruncation (asc ''ollama'') blankLines = a @ NL # b"
    unfolding blankLines_def ollama_blank_pre split ..
  have len: "length (a @ NL # b) = 555"
    by (simp add: a_def b_def ollamaPrefix_facts)
  have la: "int (length (split_nl a)) = 300 - 2"
    by (simp add: a_def length_split_nl ollamaPrefix_facts)
  have lab: "int (length (split_nl (a @ NL # b))) > 300"
    by (simp add: a_def b_def length_split_nl ollamaPrefix_facts)
  have checked: "checkCharacterLimit (a @ NL # b) (Some 8000) ''Ollama'' = (a @ NL # b, [])"
    using len by (simp add: checkCharacterLimit_def)
  have cut: "truncateByLines (a @ NL # b) 300 = a @ truncationMessage"
    by (rule truncateByLines_cut [OF la lab])
  have n300: "number_toString 300 = asc ''300''"
    by (simp add: number_toString_def digits.simps asc_def)
  have len2: "length (a @ truncationMessage) = 555"
    by (simp add: a_def ollamaPrefix_facts length_truncationMessage)
  have msg: "asc ''Prompt truncated to '' @ asc ''300'' @ asc '' lines for Ollama compatibility''
      = asc ''Prompt truncated to 300 lines for Ollama compatibility''"
    by (simp add: asc_def)
  have "optimize new_PlatformOptimizer blankLines (configFor (asc ''ollama'')) =
      Inr \<lparr>optimizedPrompt = a @ truncationMessage,
           warnings = [asc ''Prompt truncated to 300 lines for Ollama compatibility''],
           appliedOptimizations =
             [asc ''Added Ollama-specific local model optimization'',
              asc ''Removed emojis for local model compatibility'',
              asc ''Simplified structure for local models'']\<rparr>"
    using lab
    by (simp add: optimize_ollama pre checked Let_def cut n300 msg del: append_assoc)
  moreover have "mentionsTruncated (asc ''Prompt truncated to 300 lines for Ollama compatibility'')"
    using mentions_truncated_warning [of "asc ''300 lines for Ollama compatibility''"]
    by (simp add: asc_def)
  ultimately show ?thesis
    using len len2 pre by simp
qed

lemma universalPrefix_facts:
  "length universalPrefix = 276" "36 \<notin> set universalPrefix"
  by (simp_all add: universalPrefix_def asc_def)

text \<open>
  C7, amended: for every prompt and every destination, \<open>optimize\<close> returns a result; if
  the final document and the document before the truncation steps differ in length, the
  warnings contain one that mentions \<open>truncated\<close>; and unless the line limit of the
  Ollama path applies, a warning that mentions \<open>truncated\<close> means that the two lengths
  differ.
\<close>

theorem warning_correlation:
  "\<exists>r. optimize new_PlatformOptimizer prompt config = Inr r \<and>
     (length (optimizedPrompt r) \<noteq> length (preTruncation (platform config) prompt)
        \<longrightarrow> (\<exists>w\<in>set (warnings r). mentionsTruncated w)) \<and>
     (\<not> (platform config = asc ''ollama'' \<and> ollamaLineLimitApplies prompt)
        \<longrightarrow> (\<exists>w\<in>set (warnings r). mentionsTruncated w)
        \<longrightarrow> length (optimizedPrompt r) \<noteq> length (preTruncation (platform config) prompt))"
  by (rule warning_correlation_shipped)

theorem warning_correlation_witness:
  "\<exists>r. optimize new_PlatformOptimizer longPrompt (configFor (asc ''universal'')) = Inr r \<and>
     (\<exists>w. w \<in> set (warnings r) \<and> mentionsTruncated w) \<and>
     length (optimizedPrompt r) \<noteq> length (preTruncation (asc ''universal'') longPrompt)"
proof -
  let ?cfg = "configFor (asc ''universal'')"
  have pf: "platform ?cfg \<noteq> asc ''cursor''" "platform ?cfg \<noteq> asc ''claude''"
    "platform ?cfg \<noteq> asc ''ollama''"
    by (simp_all add: key_distinct key_distinct_sym)
  have pre: "preTruncation (asc ''universal'') longPrompt = universalPrefix @ longPrompt"
    by (simp add: preTruncation_def key_distinct key_distinct_sym longPrompt_def
        insertAfterHeader_None headerMatch_replicate)
  have over: "int (length (universalPrefix @ longPrompt)) > 12000"
    by (simp add: longPrompt_def universalPrefix_facts)
  obtain r where r: "optimize new_PlatformOptimizer longPrompt ?cfg = Inr r"
    and rev_dir: "\<not> (platform ?cfg = asc ''ollama'' \<and> ollamaLineLimitApplies longPrompt)
        \<longrightarrow> (\<exists>w\<in>set (warnings r). mentionsTruncated w)
        \<longrightarrow> length (optimizedPrompt r) \<noteq> length (preTruncation (platform ?cfg) longPrompt)"
    using warning_correlation [of longPrompt ?cfg] by blast
  from r have "warnings r =
      snd (checkCharacterLimit (universalPrefix @ longPrompt) (Some 12000) ''universal'')"
    unfolding optimize_universal [OF pf] by (auto simp: pre)
  with over have w: "\<exists>w. w \<in> set (warnings r) \<and> mentionsTruncated w"
    by (simp add: checkCharacterLimit_def mentions_truncated_warning)
  with rev_dir pf have "length (optimizedPrompt r) \<noteq> length (preTruncation (asc ''universal'') longPrompt)"
    by auto
  with r w show ?thesis by blast
qed

section \<open>The public operation and the optimizer\<close>

lemma core_header:
  "headerMatch (getCorePrompt @ rest) =
     Some (asc ''# ZeroCode Framework - Core Rules\<newline>\<newline>## TRIGGER PATTERNS - When you see these, apply rules:\<newline>\<newline>'')"
  by (simp add: headerMatch_def getCorePrompt_def asc_def)

lemma detectProjectType_None: "detectProjectType None = asc ''node''"
  by (simp add: detectProjectType_def)

lemma claudePrefix_facts:
  "length claudePrefix = 295" "0x011F \<notin> set claudePrefix"
  by (simp_all add: claudePrefix_def asc_def)

lemma length_exampleSection: "length exampleSection = 782"
  by (simp add: exampleSection_def)

lemma enhanceStructuredSections_plain:
  assumes "0x011F \<notin> set s"
  shows "enhanceStructuredSections s = s"
proof -
  let ?pat = "asc ''### '' @ [0x011F, 0x0178, 0x00AF] @ asc '' OBJECTIVE''"
  have "\<not> sublist ?pat s"
  proof
    assume "sublist ?pat s"
    then have "set ?pat \<subseteq> set s" by (rule set_mono_sublist)
    with assms show False by simp
  qed
  then show ?thesis
    using assms by (simp add: enhanceStructuredSections_def replace_all_foreign replace_all_no_match)
qed

lemma claude_long_prompt:
  "\<exists>r. optimize new_PlatformOptimizer longPrompt (configFor (asc ''claude'')) = Inr r \<and>
       length (optimizedPrompt r) = 21077"
proof -
  have ins: "insertAfterHeader longPrompt claudePrefix = claudePrefix @ longPrompt"
    by (simp add: longPrompt_def insertAfterHeader_None headerMatch_replicate)
  have "0x011F \<notin> set (claudePrefix @ longPrompt)"
    using claudePrefix_facts(2) by (simp add: longPrompt_def)
  then have "preTruncation (asc ''claude'') longPrompt = claudePrefix @ longPrompt @ exampleSection"
    by (simp add: preTruncation_def key_distinct key_distinct_sym ins
        enhanceStructuredSections_plain addDetailedExamples_def)
  moreover have "length (claudePrefix @ longPrompt @ exampleSection) = 21077"
    by (simp add: claudePrefix_facts length_exampleSection longPrompt_def)
  ultimately show ?thesis
    by (simp add: optimize_claude)
qed

text \<open>
  C1, as stated: the assembled document is rewritten by the transformer, and truncated
  when it exceeds the ceiling, before it is returned. For the destination \<open>universal\<close>
  and no \<open>package.json\<close>, the transformer would insert its preamble of 276 characters
  after the header of the assembled document, giving 2940 characters; \<open>generate\<close>
  returns the 2664 characters of the assembly. And the optimizer itself does not truncate
  on its Claude path: a prompt of 20000 letters comes back with 21077 characters, above
  the ceiling of 20000.
\<close>

theorem generate_not_transformed:
  "(\<exists>r. optimize new_PlatformOptimizer
          (optimizedPrompt (assembleAdaptivePrompt new_AdaptivePromptGenerator None
             (configFor (asc ''universal''))))
          (configFor (asc ''universal'')) = Inr r \<and>
       length (optimizedPrompt r) = 2940 \<and>
       length (systemPrompt (generatePrompt None (configFor (asc ''universal'')))) = 2664 \<and>
       systemPrompt (generatePrompt None (configFor (asc ''universal''))) \<noteq> optimizedPrompt r) \<and>
   (\<exists>r. optimize new_PlatformOptimizer longPrompt (configFor (asc ''claude'')) = Inr r \<and>
       length (optimizedPrompt r) = 21077 \<and>
       getPlatformLimit new_PlatformOptimizer (asc ''claude'') = 20000)"
proof -
  let ?cfg = "configFor (asc ''universal'')"
  define rest where "rest = asc ''\<newline>\<newline>'' @ cursorExtended @ asc ''\<newline>\<newline>'' @ nodeExamples"
  define h where "h = asc ''# ZeroCode Framework - Core Rules\<newline>\<newline>## TRIGGER PATTERNS - When you see these, apply rules:\<newline>\<newline>''"
  have pf: "platform ?cfg \<noteq> asc ''cursor''" "platform ?cfg \<noteq> asc ''claude''"
    "platform ?cfg \<noteq> asc ''ollama''"
    by (simp_all add: key_distinct key_distinct_sym)
  have A: "optimizedPrompt (assembleAdaptivePrompt new_AdaptivePromptGenerator None ?cfg)
      = getCorePrompt @ rest"
    by (simp add: shipped_assembly shipped_extended shipped_examples detectProjectType_None
        key_distinct key_distinct_sym fragments_nonempty rest_def)
  have lenA: "length (getCorePrompt @ rest) = 2664"
    by (simp add: rest_def fragment_lengths)
  have h: "36 \<notin> set h" "length h = 91"
    by (simp_all add: h_def asc_def)
  have ins: "insertAfterHeader (getCorePrompt @ rest) universalPrefix
      = h @ universalPrefix @ drop (length h) (getCorePrompt @ rest)"
    by (rule insertAfterHeader_Some [OF core_header [folded h_def] h(1) universalPrefix_facts(2)])
  have lenI: "length (insertAfterHeader (getCorePrompt @ rest) universalPrefix) = 2940"
    unfolding ins using lenA by (simp add: h universalPrefix_facts)
  have pre: "preTruncation (asc ''universal'') (getCorePrompt @ rest)
      = insertAfterHeader (getCorePrompt @ rest) universalPrefix"
    by (simp add: preTruncation_def key_distinct key_distinct_sym)
  have opt: "optimize new_PlatformOptimizer (getCorePrompt @ rest) ?cfg =
      Inr \<lparr>optimizedPrompt = insertAfterHeader (getCorePrompt @ rest) universalPrefix,
           warnings = [],
           appliedOptimizations = [asc ''Added universal compatibility optimization'']\<rparr>"
    unfolding optimize_universal [OF pf] using lenI
    by (simp add: pre checkCharacterLimit_def)
  have gen: "systemPrompt (generatePrompt None ?cfg) = getCorePrompt @ rest"
    by (simp add: generatePrompt_def generate_def A)
  have "getPlatformLimit new_PlatformOptimizer (asc ''claude'') = 20000"
    by (simp add: shipped_limit key_distinct key_distinct_sym)
  with claude_long_prompt show ?thesis
    unfolding A gen opt using lenA lenI by auto
qed

text \<open>
  C1, amended: for every request, \<open>generate\<close> returns the assembled document as it is,
  without the transformer and the truncator; with the fragments of the program that
  document has at most 2875 characters, so it never exceeds the ceiling of the
  destination, which is at least 8000.
\<close>

theorem generate_within_ceiling:
  "systemPrompt (generatePrompt file config)
     = optimizedPrompt (assembleAdaptivePrompt new_AdaptivePromptGenerator file config) \<and>
   int (length (systemPrompt (generatePrompt file config)))
     \<le> getPlatformLimit new_PlatformOptimizer (platform config)"
proof -
  have "length (systemPrompt (generatePrompt file config)) \<le> 1608 + 2 + 621 + 2 + 642"
    using shipped_extended_bounds(2) [of "platform config"]
      shipped_examples_bound [of "detectProjectType file"]
    by (simp add: generatePrompt_def generate_def shipped_assembly fragment_lengths)
  with shipped_limit_bound [of "platform config"] show ?thesis
    by (simp add: generatePrompt_def generate_def)
qed

section \<open>Unknown destinations\<close>

lemma unknown_platform:
  "platformLimits new_PlatformOptimizer pf = None \<longleftrightarrow>
     pf \<noteq> asc ''cursor'' \<and> pf \<noteq> asc ''claude'' \<and> pf \<noteq> asc ''ollama'' \<and> pf \<noteq> asc ''universal''"
  by (simp add: new_PlatformOptimizer_def initializePlatformLimits_def)

lemma no_extended_fragment:
  "extendedPrompts new_AdaptivePromptGenerator pf = None \<longleftrightarrow>
     pf \<noteq> asc ''cursor'' \<and> pf \<noteq> asc ''claude'' \<and> pf \<noteq> asc ''copilot''"
  by (simp add: new_AdaptivePromptGenerator_def loadExtendedPrompts_def)

text \<open>
  C5, as stated: for a destination without a profile the result is that of the default
  destination. The identifier \<open>copilot\<close> has no profile, but it has an extended fragment
  of its own, so its document carries that fragment (416 characters) where the document
  of \<open>universal\<close> carries the fragment stored under \<open>cursor\<close> (621 characters).
\<close>

theorem unknown_destination_counterexample:
  "platformLimits new_PlatformOptimizer (asc ''copilot'') = None \<and>
   length (optimizedPrompt (assembleAdaptivePrompt new_AdaptivePromptGenerator None
      (configFor (asc ''copilot'')))) = 2459 \<and>
   length (optimizedPrompt (assembleAdaptivePrompt new_AdaptivePromptGenerator None
      (configFor (asc ''universal'')))) = 2664 \<and>
   optimizedPrompt (assembleAdaptivePrompt new_AdaptivePromptGenerator None
      (configFor (asc ''copilot'')))
     \<noteq> optimizedPrompt (assembleAdaptivePrompt new_AdaptivePromptGenerator None
      (configFor (asc ''universal'')))"
proof -
  have a: "length (optimizedPrompt (assembleAdaptivePrompt new_AdaptivePromptGenerator None
      (configFor (asc ''copilot'')))) = 2459"
    by (simp add: shipped_assembly shipped_extended shipped_examples detectProjectType_None
        key_distinct key_distinct_sym fragments_nonempty fragment_lengths)
  have b: "length (optimizedPrompt (assembleAdaptivePrompt new_AdaptivePromptGenerator None
      (configFor (asc ''universal'')))) = 2664"
    by (simp add: shipped_assembly shipped_extended shipped_examples detectProjectType_None
        key_distinct key_distinct_sym fragments_nonempty fragment_lengths)
  have c: "platformLimits new_PlatformOptimizer (asc ''copilot'') = None"
    by (simp add: unknown_platform key_distinct key_distinct_sym)
  from a b have "optimizedPrompt (assembleAdaptivePrompt new_AdaptivePromptGenerator None
      (configFor (asc ''copilot'')))
     \<noteq> optimizedPrompt (assembleAdaptivePrompt new_AdaptivePromptGenerator None
      (configFor (asc ''universal'')))"
    by auto
  with a b c show ?thesis by blast
qed

lemma preTruncation_other:
  "pf \<noteq> asc ''cursor'' \<Longrightarrow> pf \<noteq> asc ''claude'' \<Longrightarrow> pf \<noteq> asc ''ollama'' \<Longrightarrow>
   preTruncation pf prompt = insertAfterHeader prompt universalPrefix"
  by (simp add: preTruncation_def)

lemma unknown_destination_shipped:
  assumes "platformLimits new_PlatformOptimizer (platform config) = None"
  shows "optimize new_PlatformOptimizer prompt config
           = optimize new_PlatformOptimizer prompt (config\<lparr>platform := asc ''universal''\<rparr>)"
    and "appliedOptimizations (assembleAdaptivePrompt new_AdaptivePromptGenerator file config)
           = appliedOptimizations (assembleAdaptivePrompt new_AdaptivePromptGenerator file
               (config\<lparr>platform := asc ''universal''\<rparr>))"
    and "warnings (assembleAdaptivePrompt new_AdaptivePromptGenerator file config)
           = warnings (assembleAdaptivePrompt new_AdaptivePromptGenerator file
               (config\<lparr>platform := asc ''universal''\<rparr>))"
    and "extendedPrompts new_AdaptivePromptGenerator (platform config) = None \<Longrightarrow>
         assembleAdaptivePrompt new_AdaptivePromptGenerator file config
           = assembleAdaptivePrompt new_AdaptivePromptGenerator file
               (config\<lparr>platform := asc ''universal''\<rparr>)"
proof -
  from assms have pf: "platform config \<noteq> asc ''cursor''" "platform config \<noteq> asc ''claude''"
    "platform config \<noteq> asc ''ollama''" "platform config \<noteq> asc ''universal''"
    by (simp_all add: unknown_platform)
  let ?d = "config\<lparr>platform := asc ''universal''\<rparr>"
  have d: "platform ?d \<noteq> asc ''cursor''" "platform ?d \<noteq> asc ''claude''"
    "platform ?d \<noteq> asc ''ollama''"
    by (simp_all add: key_distinct key_distinct_sym)
  show "optimize new_PlatformOptimizer prompt config = optimize new_PlatformOptimizer prompt ?d"
    unfolding optimize_universal [OF pf(1-3)] optimize_universal [OF d]
    by (simp add: preTruncation_other pf key_distinct key_distinct_sym)
  show "appliedOptimizations (assembleAdaptivePrompt new_AdaptivePromptGenerator file config)
      = appliedOptimizations (assembleAdaptivePrompt new_AdaptivePromptGenerator file ?d)"
    by (simp add: shipped_assembly)
  show "warnings (assembleAdaptivePrompt new_AdaptivePromptGenerator file config)
      = warnings (assembleAdaptivePrompt new_AdaptivePromptGenerator file ?d)"
    by (simp add: shipped_assembly)
  show "assembleAdaptivePrompt new_AdaptivePromptGenerator file config
      = assembleAdaptivePrompt new_AdaptivePromptGenerator file ?d"
    if "extendedPrompts new_AdaptivePromptGenerator (platform config) = None"
    using that pf
    by (simp add: shipped_assembly shipped_extended no_extended_fragment
        key_distinct key_distinct_sym)
qed

text \<open>
  C5, amended: for every request whose destination has no profile, the optimizer returns
  what it returns for the default destination \<open>universal\<close>, and the assembly has the same
  applied steps and the same warnings as for \<open>universal\<close>; the assembly is the same
  altogether when the destination has no extended fragment of its own.
\<close>

theorem unknown_destination_like_default:
  "platformLimits new_PlatformOptimizer (platform config) = None \<Longrightarrow>
   optimize new_PlatformOptimizer prompt config
     = optimize new_PlatformOptimizer prompt (config\<lparr>platform := asc ''universal''\<rparr>) \<and>
   appliedOptimizations (assembleAdaptivePrompt new_AdaptivePromptGenerator file config)
     = appliedOptimizations (assembleAdaptivePrompt new_AdaptivePromptGenerator file
         (config\<lparr>platform := asc ''universal''\<rparr>)) \<and>
   warnings (assembleAdaptivePrompt new_AdaptivePromptGenerator file config)
     = warnings (assembleAdaptivePrompt new_AdaptivePromptGenerator file
         (config\<lparr>platform := asc ''universal''\<rparr>)) \<and>
   (extendedPrompts new_AdaptivePromptGenerator (platform config) = None \<longrightarrow>
      assembleAdaptivePrompt new_AdaptivePromptGenerator file config
        = assembleAdaptivePrompt new_AdaptivePromptGenerator file
            (config\<lparr>platform := asc ''universal''\<rparr>))"
  by (intro conjI impI unknown_destination_shipped)

theorem unknown_destination_like_default_witness:
  "platformLimits new_PlatformOptimizer (asc ''vscode'') = None \<and>
   extendedPrompts new_AdaptivePromptGenerator (asc ''vscode'') = None \<and>
   assembleAdaptivePrompt new_AdaptivePromptGenerator None (configFor (asc ''vscode''))
     = assembleAdaptivePrompt new_AdaptivePromptGenerator None (configFor (asc ''universal'')) \<and>
   optimize new_PlatformOptimizer longPrompt (configFor (asc ''vscode''))
     = optimize new_PlatformOptimizer longPrompt (configFor (asc ''universal''))"
proof -
  have k: "asc ''vscode'' \<noteq> asc ''cursor''" "asc ''vscode'' \<noteq> asc ''claude''"
    "asc ''vscode'' \<noteq> asc ''ollama''" "asc ''vscode'' \<noteq> asc ''universal''"
    "asc ''vscode'' \<noteq> asc ''copilot''"
    by (simp_all add: asc_def)
  have u: "platformLimits new_PlatformOptimizer (asc ''vscode'') = None"
    and e: "extendedPrompts new_AdaptivePromptGenerator (asc ''vscode'') = None"
    by (simp_all add: unknown_platform no_extended_fragment k)
  have d: "(configFor (asc ''vscode''))\<lparr>platform := asc ''universal''\<rparr> = configFor (asc ''universal'')"
    by (simp add: configFor_def)
  show ?thesis
    using unknown_destination_like_default [of "configFor (asc ''vscode'')" longPrompt None] u e
    by (simp add: d)
qed

section \<open>Replacement and the structure of a text\<close>










section \<open>The bold rewrite\<close>






section \<open>Lines under the bold rewrite\<close>

lemma keepsStart_refl: "keepsStart l l"
  by (simp add: keepsStart_def prefix_def) (metis takeWhile_dropWhile_id)






section \<open>Headings, bold phrases and checkboxes\<close>












lemma demote_Nil [simp]: "demote [] = []"
  by (simp add: demote_def)












end
